theory Spec2Isabelle
  imports Complex_Main
begin

section \<open>Dispersive susceptibilities of Meep (susceptibility.cpp)\<close>

text \<open>
  A shallow embedding of \<^verbatim>\<open>src/src/susceptibility.cpp\<close>. The C++ types
  \<^verbatim>\<open>double\<close> and \<^verbatim>\<open>realnum\<close> are read as the real numbers, so every
  statement below is one of exact arithmetic. A pointer \<^verbatim>\<open>realnum *\<close> is an
  optional array (\<open>None\<close> is \<^verbatim>\<open>NULL\<close>); an array is the memory behind the
  pointer, addressed by a signed offset, as the strided loops of the source address it.
  The arrays \<^verbatim>\<open>P\<close> and \<^verbatim>\<open>P_prev\<close> of one internal-data block do not
  overlap (\<^verbatim>\<open>init_internal_data\<close> lays them out one after the other), so each
  is a value of its own in the state record.
\<close>

subsection \<open>Types declared in meep.hpp\<close>

text \<open>
  The header \<^verbatim>\<open>meep.hpp\<close> is not among the sources. Its enumerations are written
  here with the constants the source names (\<^verbatim>\<open>X\<close>, \<^verbatim>\<open>Y\<close>, \<^verbatim>\<open>Z\<close>,
  \<^verbatim>\<open>E_stuff\<close>, \<^verbatim>\<open>D_stuff\<close>, \<^verbatim>\<open>B_stuff\<close>); the direction that
  the header calls \<^verbatim>\<open>P\<close> is \<open>Phi\<close> here, because \<open>P\<close> is the polarization
  table of \<^verbatim>\<open>lorentzian_data\<close>.
\<close>

datatype component =
  Ex | Ey | Er | Ep | Ez | Hx | Hy | Hr | Hp | Hz
  | Dx | Dy | Dr | Dp | Dz | Bx | By | Br | Bp | Bz
  | Dielectric | Permeability | NO_COMPONENT

datatype direction = X | Y | Z | R | Phi | NO_DIRECTION

datatype ndim = D1 | D2 | D3 | Dcyl

datatype field_type =
  E_stuff | H_stuff | D_stuff | B_stuff | PE_stuff | PH_stuff | WE_stuff | WH_stuff

datatype error = Abort string | Null_deref | Out_of_bounds

type_synonym realnum = real
type_synonym array = "int \<Rightarrow> realnum"
type_synonym ptr = "array option"

text \<open>\<^verbatim>\<open>realnum *W[NUM_FIELD_COMPONENTS][2]\<close>: a table of pointers.\<close>

type_synonym field_table = "component \<Rightarrow> nat \<Rightarrow> ptr"

text \<open>
  The inline functions and loop macros of \<^verbatim>\<open>meep.hpp\<close> that the source calls
  are parameters of the model: every general theorem holds for any header.
\<close>

record meep_hpp =
  is_electric :: "component \<Rightarrow> bool"
  is_magnetic :: "component \<Rightarrow> bool"
  component_direction :: "component \<Rightarrow> direction"
  direction_component :: "component \<Rightarrow> direction \<Rightarrow> component"
  cycle_direction :: "ndim \<Rightarrow> direction \<Rightarrow> int \<Rightarrow> direction"
  field_type_component :: "field_type \<Rightarrow> component \<Rightarrow> component"
  FOR_FT_COMPONENTS :: "field_type \<Rightarrow> component list"

text \<open>
  \<^verbatim>\<open>grid_volume\<close>: the dimensionality, the stride of each direction, the number
  of points, and the indices that \<^verbatim>\<open>LOOP_OVER_VOL_OWNED(gv, c, i)\<close> visits, in
  the order it visits them.
\<close>

record grid_volume =
  dim :: ndim
  stride :: "direction \<Rightarrow> int"
  gv_ntot :: nat
  LOOP_OVER_VOL_OWNED :: "component \<Rightarrow> int list"

text \<open>\<^verbatim>\<open>FOR_COMPONENTS\<close>, \<^verbatim>\<open>FOR_DIRECTIONS\<close> and \<^verbatim>\<open>DOCMP2\<close>.\<close>

definition FOR_COMPONENTS :: "component list" where
  "FOR_COMPONENTS =
    [Ex, Ey, Er, Ep, Ez, Hx, Hy, Hr, Hp, Hz, Dx, Dy, Dr, Dp, Dz, Bx, By, Br, Bp, Bz]"

definition FOR_DIRECTIONS :: "direction list" where
  "FOR_DIRECTIONS = [X, Y, Z, R, Phi]"

definition DOCMP2 :: "nat list" where
  "DOCMP2 = [0, 1]"

text \<open>A loop whose body can fault: the first fault ends it.\<close>

fun for_each :: "'i list \<Rightarrow> ('i \<Rightarrow> 's \<Rightarrow> error + 's) \<Rightarrow> 's \<Rightarrow> error + 's" where
  "for_each [] body st = Inr st"
| "for_each (i # rest) body st =
     (case body i st of Inl e \<Rightarrow> Inl e | Inr st' \<Rightarrow> for_each rest body st')"

subsection \<open>The susceptibility classes\<close>

record susceptibility =
  sus_id :: int
  sus_ntot :: nat
  sigma :: "component \<Rightarrow> direction \<Rightarrow> ptr"
  trivial_sigma :: "component \<Rightarrow> direction \<Rightarrow> bool"

record lorentzian_susceptibility = susceptibility +
  omega_0 :: real
  gamma :: real
  no_omega_0_denominator :: bool

record noisy_lorentzian_susceptibility = lorentzian_susceptibility +
  noise_amp :: real

record gyrotropic_susceptibility = lorentzian_susceptibility +
  alpha :: real
  gyro_tensor :: "direction \<Rightarrow> direction \<Rightarrow> real"

text \<open>
  \<^verbatim>\<open>lorentzian_data\<close>: the tables of pointers into the block. The byte size
  \<^verbatim>\<open>sz_data\<close> and the flat \<^verbatim>\<open>data\<close> member are the layout of the block and
  are not modelled.
\<close>

record lorentzian_data =
  ntot :: nat
  P :: "component \<Rightarrow> nat \<Rightarrow> ptr"
  P_prev :: "component \<Rightarrow> nat \<Rightarrow> ptr"

subsection \<open>needs_P and the internal data\<close>

text \<open>
  \<^verbatim>\<open>susceptibility::needs_P\<close> (lines 68-74). The loop over the directions
  returns at the first direction that qualifies, so it is an existential over the list.
\<close>

definition needs_P ::
  "meep_hpp \<Rightarrow> 'a susceptibility_scheme \<Rightarrow> component \<Rightarrow> nat \<Rightarrow> field_table \<Rightarrow> bool" where
  "needs_P h sus c cmp W =
     (if \<not> is_electric h c \<and> \<not> is_magnetic h c then False
      else list_ex (\<lambda>d. \<not> trivial_sigma sus c d \<and> W (direction_component h c d) cmp \<noteq> None)
             FOR_DIRECTIONS)"

text \<open>
  \<^verbatim>\<open>lorentzian_susceptibility::init_internal_data\<close> (lines 112-130) on the block
  that \<^verbatim>\<open>new_internal_data\<close> sized: the block is zeroed, and every needed
  (component, copy) gets an array of \<^verbatim>\<open>P\<close> and one of \<^verbatim>\<open>P_prev\<close>.
\<close>

definition init_internal_data ::
  "meep_hpp \<Rightarrow> 'a susceptibility_scheme \<Rightarrow> field_table \<Rightarrow> real \<Rightarrow> grid_volume \<Rightarrow> lorentzian_data" where
  "init_internal_data h sus W dt gv =
     \<lparr>ntot = gv_ntot gv,
      P = (\<lambda>c cmp. if c \<in> set FOR_COMPONENTS \<and> cmp \<in> set DOCMP2 \<and> needs_P h sus c cmp W
                   then Some (\<lambda>i. 0) else None),
      P_prev = (\<lambda>c cmp. if c \<in> set FOR_COMPONENTS \<and> cmp \<in> set DOCMP2 \<and> needs_P h sus c cmp W
                   then Some (\<lambda>i. 0) else None)\<rparr>"

subsection \<open>The Lorentzian update\<close>

text \<open>The macro \<^verbatim>\<open>OFFDIAG(u, g, sx, s)\<close> at the loop index \<open>i\<close> (lines 174-175).\<close>

definition OFFDIAG :: "array \<Rightarrow> array \<Rightarrow> int \<Rightarrow> int \<Rightarrow> int \<Rightarrow> real" where
  "OFFDIAG u g sx s i =
     0.25 * ((g i + g (i - sx)) * u i + (g (i + s) + g ((i + s) - sx)) * u (i + s))"

text \<open>
  The constants that \<^verbatim>\<open>update_P\<close> computes before its loops (lines 181-184).
\<close>

record lorentzian_consts =
  omega0dtsqr :: real
  gamma1inv :: real
  gamma1 :: real
  omega0dtsqr_denom :: real

definition lorentzian_constants :: "'a lorentzian_susceptibility_scheme \<Rightarrow> real \<Rightarrow> lorentzian_consts" where
  "lorentzian_constants sus dt =
     (let omega2pi = 2 * pi * omega_0 sus; g2pi = gamma sus * 2 * pi;
          omega0dtsqr = omega2pi * omega2pi * dt * dt
      in \<lparr>omega0dtsqr = omega0dtsqr,
          gamma1inv = 1 / (1 + g2pi * dt / 2),
          gamma1 = (1 - g2pi * dt / 2),
          omega0dtsqr_denom = (if no_omega_0_denominator sus then 0 else omega0dtsqr)\<rparr>)"

text \<open>
  The three assignments that the loop bodies share (lines 222-226, 232-235, 240-243): they
  differ in the forcing term only. The state of a loop is the array behind \<^verbatim>\<open>p\<close>
  and the pointer \<^verbatim>\<open>pp\<close>; reading through a null \<^verbatim>\<open>pp\<close> is a fault.
\<close>

definition update_point :: "lorentzian_consts \<Rightarrow> real \<Rightarrow> int \<Rightarrow> array \<times> ptr \<Rightarrow> error + array \<times> ptr" where
  "update_point k forcing i st =
     (case snd st of
        None \<Rightarrow> Inl Null_deref
      | Some pp \<Rightarrow>
          let p = fst st; pcur = p i
          in Inr (p(i := gamma1inv k * (pcur * (2 - omega0dtsqr_denom k) - gamma1 k * pp i
                             + omega0dtsqr k * forcing)),
                  Some (pp(i := pcur))))"

text \<open>The 3x3 anisotropic loop (lines 217-228).\<close>

definition anisotropic3_loop ::
  "lorentzian_consts \<Rightarrow> int list \<Rightarrow> array \<Rightarrow> array \<Rightarrow> int \<Rightarrow> ptr \<Rightarrow> ptr \<Rightarrow> int \<Rightarrow> ptr \<Rightarrow> ptr \<Rightarrow> int
     \<Rightarrow> array \<times> ptr \<Rightarrow> error + array \<times> ptr" where
  "anisotropic3_loop k owned w s is s1 w1 is1 s2 w2 is2 =
     for_each owned (\<lambda>i st.
       if s i \<noteq> 0 then
         (case (s1, w1, s2, w2) of
            (Some s1a, Some w1a, Some s2a, Some w2a) \<Rightarrow>
              update_point k (s i * w i + OFFDIAG s1a w1a is1 is i + OFFDIAG s2a w2a is2 is i) i st
          | _ \<Rightarrow> Inl Null_deref)
       else Inr st)"

text \<open>The 2x2 anisotropic loop (lines 230-237).\<close>

definition anisotropic2_loop ::
  "lorentzian_consts \<Rightarrow> int list \<Rightarrow> array \<Rightarrow> array \<Rightarrow> int \<Rightarrow> ptr \<Rightarrow> ptr \<Rightarrow> int
     \<Rightarrow> array \<times> ptr \<Rightarrow> error + array \<times> ptr" where
  "anisotropic2_loop k owned w s is s1 w1 is1 =
     for_each owned (\<lambda>i st.
       if s i \<noteq> 0 then
         (case (s1, w1) of
            (Some s1a, Some w1a) \<Rightarrow> update_point k (s i * w i + OFFDIAG s1a w1a is1 is i) i st
          | _ \<Rightarrow> Inl Null_deref)
       else Inr st)"

text \<open>The isotropic loop (lines 239-244): it has no test of \<^verbatim>\<open>s[i]\<close>.\<close>

definition isotropic_loop ::
  "lorentzian_consts \<Rightarrow> int list \<Rightarrow> array \<Rightarrow> array \<Rightarrow> array \<times> ptr \<Rightarrow> error + array \<times> ptr" where
  "isotropic_loop k owned w s =
     for_each owned (\<lambda>i st. update_point k (s i * w i) i st)"

text \<open>
  The branch taken once \<^verbatim>\<open>s1\<close> and \<^verbatim>\<open>s2\<close> are canonical (lines 216, 229,
  238).
\<close>

datatype branch = Anisotropic3 | Anisotropic2 | Isotropic

definition select_branch :: "ptr \<Rightarrow> ptr \<Rightarrow> branch" where
  "select_branch s1 s2 =
     (if s1 \<noteq> None \<and> s2 \<noteq> None then Anisotropic3
      else if s1 \<noteq> None then Anisotropic2
      else Isotropic)"

text \<open>
  Lines 209-245: the \<^verbatim>\<open>SWAP\<close>s that make \<^verbatim>\<open>s1\<close> the non-null pointer,
  then the loop of the selected branch. (The swapped \<^verbatim>\<open>d1\<close>, \<^verbatim>\<open>c1\<close> are
  not read after the swap.)
\<close>

definition update_P_loops ::
  "lorentzian_consts \<Rightarrow> int list \<Rightarrow> array \<Rightarrow> array \<Rightarrow> int \<Rightarrow> ptr \<Rightarrow> ptr \<Rightarrow> int \<Rightarrow> ptr \<Rightarrow> ptr \<Rightarrow> int
     \<Rightarrow> array \<times> ptr \<Rightarrow> error + array \<times> ptr" where
  "update_P_loops k owned w s is s1 w1 is1 s2 w2 is2 =
     (let swap = (s2 \<noteq> None \<and> s1 = None);
          is1' = (if swap then is2 else is1); is2' = (if swap then is1 else is2);
          w1' = (if swap then w2 else w1); w2' = (if swap then w1 else w2);
          s1' = (if swap then s2 else s1); s2' = (if swap then s1 else s2)
      in case select_branch s1' s2' of
           Anisotropic3 \<Rightarrow> anisotropic3_loop k owned w s is s1' w1' is1' s2' w2' is2'
         | Anisotropic2 \<Rightarrow> anisotropic2_loop k owned w s is s1' w1' is1'
         | Isotropic \<Rightarrow> isotropic_loop k owned w s)"

text \<open>Storing a pointer into a table: \<^verbatim>\<open>t[c][cmp] = v\<close>.\<close>

definition set_ptr :: "(component \<Rightarrow> nat \<Rightarrow> ptr) \<Rightarrow> component \<Rightarrow> nat \<Rightarrow> ptr \<Rightarrow> component \<Rightarrow> nat \<Rightarrow> ptr" where
  "set_ptr t c cmp v = t(c := (t c)(cmp := v))"

text \<open>
  The body of \<^verbatim>\<open>FOR_COMPONENTS(c) DOCMP2\<close> in
  \<^verbatim>\<open>lorentzian_susceptibility::update_P\<close> (lines 190-247). The arrays are
  updated in place, so the tables of the result point at the new contents.
\<close>

definition update_P_body ::
  "meep_hpp \<Rightarrow> 'a lorentzian_susceptibility_scheme \<Rightarrow> field_table \<Rightarrow> grid_volume \<Rightarrow> lorentzian_consts
     \<Rightarrow> component \<Rightarrow> nat \<Rightarrow> lorentzian_data \<Rightarrow> error + lorentzian_data" where
  "update_P_body h sus W gv k c cmp d =
     (case P d c cmp of
        None \<Rightarrow> Inr d
      | Some p \<Rightarrow>
          (case (W c cmp, sigma sus c (component_direction h c)) of
             (Some w, Some s) \<Rightarrow>
               let pp = P_prev d c cmp;
                   d0 = component_direction h c;
                   is = stride gv d0 * (if is_magnetic h c then - 1 else 1);
                   d1 = cycle_direction h (dim gv) d0 1;
                   c1 = direction_component h c d1;
                   is1 = stride gv d1 * (if is_magnetic h c then - 1 else 1);
                   w1 = W c1 cmp;
                   s1 = (if w1 \<noteq> None then sigma sus c d1 else None);
                   d2 = cycle_direction h (dim gv) d0 2;
                   c2 = direction_component h c d2;
                   is2 = stride gv d2 * (if is_magnetic h c then - 1 else 1);
                   w2 = W c2 cmp;
                   s2 = (if w2 \<noteq> None then sigma sus c d2 else None)
               in (case update_P_loops k (LOOP_OVER_VOL_OWNED gv c) w s is s1 w1 is1 s2 w2 is2 (p, pp) of
                     Inl e \<Rightarrow> Inl e
                   | Inr st \<Rightarrow>
                       Inr (d\<lparr>P := set_ptr (P d) c cmp (Some (fst st)),
                              P_prev := set_ptr (P_prev d) c cmp (snd st)\<rparr>))
           | _ \<Rightarrow> Inr d))"

text \<open>
  \<^verbatim>\<open>lorentzian_susceptibility::update_P\<close> (lines 177-249). The argument
  \<^verbatim>\<open>P_internal_data\<close> is a pointer: the first \<^verbatim>\<open>d->P[c][cmp]\<close> reads
  through it, which faults when it is null.
\<close>

definition update_P ::
  "meep_hpp \<Rightarrow> 'a lorentzian_susceptibility_scheme \<Rightarrow> field_table \<Rightarrow> field_table \<Rightarrow> real \<Rightarrow> grid_volume
     \<Rightarrow> lorentzian_data option \<Rightarrow> error + lorentzian_data" where
  "update_P h sus W W_prev dt gv P_internal_data =
     (case P_internal_data of
        None \<Rightarrow> Inl Null_deref
      | Some d \<Rightarrow>
          for_each FOR_COMPONENTS
            (\<lambda>c. for_each DOCMP2 (update_P_body h sus W gv (lorentzian_constants sus dt) c)) d)"

subsection \<open>subtract_P and the ghost-value queries\<close>

text \<open>
  \<^verbatim>\<open>lorentzian_susceptibility::subtract_P\<close> (lines 251-268). The second statement
  reads \<^verbatim>\<open>d->ntot\<close>, with no test of \<^verbatim>\<open>d\<close> before it. The result is the
  table \<^verbatim>\<open>f_minus_p\<close> with the arrays as the loop leaves them.
\<close>

definition subtract_P ::
  "meep_hpp \<Rightarrow> field_type \<Rightarrow> field_table \<Rightarrow> lorentzian_data option \<Rightarrow> error + field_table" where
  "subtract_P h ft f_minus_p P_internal_data =
     (case P_internal_data of
        None \<Rightarrow> Inl Null_deref
      | Some d \<Rightarrow>
          let ft2 = (if ft = E_stuff then D_stuff else B_stuff);
              n = ntot d
          in for_each (FOR_FT_COMPONENTS h ft)
               (\<lambda>ec. for_each DOCMP2
                  (\<lambda>cmp f.
                     case P d ec cmp of
                       None \<Rightarrow> Inr f
                     | Some p \<Rightarrow>
                         let dc = field_type_component h ft2 ec
                         in (case f dc cmp of
                               None \<Rightarrow> Inr f
                             | Some fmp \<Rightarrow>
                                 Inr (set_ptr f dc cmp
                                   (Some (fold (\<lambda>i a. a(int i := a (int i) - p (int i))) [0..<n] fmp))))))
               f_minus_p)"

text \<open>
  \<^verbatim>\<open>num_cinternal_notowned_needed\<close> (lines 270-274) reads \<^verbatim>\<open>d->P[c][0]\<close>
  with no test of \<^verbatim>\<open>d\<close>.
\<close>

definition num_cinternal_notowned_needed :: "component \<Rightarrow> lorentzian_data option \<Rightarrow> error + int" where
  "num_cinternal_notowned_needed c P_internal_data =
     (case P_internal_data of
        None \<Rightarrow> Inl Null_deref
      | Some d \<Rightarrow> Inr (if P d c 0 \<noteq> None then 1 else 0))"

text \<open>
  \<^verbatim>\<open>cinternal_notowned_ptr\<close> (lines 276-282). The pointer it returns,
  \<^verbatim>\<open>d->P[c][cmp] + n\<close>, is the place \<open>n\<close> of the array of (component, copy).
\<close>

definition cinternal_notowned_ptr ::
  "int \<Rightarrow> component \<Rightarrow> nat \<Rightarrow> int \<Rightarrow> lorentzian_data option \<Rightarrow> (component \<times> nat \<times> int) option" where
  "cinternal_notowned_ptr inotowned c cmp n P_internal_data =
     (case P_internal_data of
        None \<Rightarrow> None
      | Some d \<Rightarrow> (case P d c cmp of None \<Rightarrow> None | Some p \<Rightarrow> Some (c, cmp, n)))"

subsection \<open>dump_params\<close>

text \<open>
  Modelled from the spec: \<^verbatim>\<open>h5file::write_chunk\<close> is missing (the checkpoint
  subsystem is an external collaborator). The spec has the records "written sequentially
  into a chunked numeric-array stream": the file is the list of the chunks written, each
  with its rank, its start, its dimensions and its data.
\<close>

type_synonym h5file = "(nat \<times> nat list \<times> nat list \<times> real list) list"

definition write_chunk :: "nat \<Rightarrow> nat list \<Rightarrow> nat list \<Rightarrow> real list \<Rightarrow> h5file \<Rightarrow> h5file" where
  "write_chunk rank chunk_start dims data h5f = h5f @ [(rank, chunk_start, dims, data)]"

text \<open>\<^verbatim>\<open>get_id()\<close> returns the identifier of the term.\<close>

definition get_id :: "'a susceptibility_scheme \<Rightarrow> int" where
  "get_id sus = sus_id sus"

text \<open>
  \<^verbatim>\<open>lorentzian_susceptibility::dump_params\<close> (lines 284-290). The state is the
  file and the offset \<^verbatim>\<open>*start\<close>.
\<close>

definition dump_params :: "'a lorentzian_susceptibility_scheme \<Rightarrow> h5file \<times> nat \<Rightarrow> h5file \<times> nat" where
  "dump_params sus st =
     (let h5f = fst st; start = snd st;
          num_params = 5;
          params_dims = [num_params];
          params_data = [4, real_of_int (get_id sus), omega_0 sus, gamma sus,
                         of_bool (no_omega_0_denominator sus)]
      in (write_chunk 1 [start] params_dims params_data h5f, start + num_params))"

text \<open>\<^verbatim>\<open>noisy_lorentzian_susceptibility::dump_params\<close> (lines 316-323).\<close>

definition noisy_dump_params ::
  "'a noisy_lorentzian_susceptibility_scheme \<Rightarrow> h5file \<times> nat \<Rightarrow> h5file \<times> nat" where
  "noisy_dump_params sus st =
     (let h5f = fst st; start = snd st;
          num_params = 6;
          params_dims = [num_params];
          params_data = [5, real_of_int (get_id sus), noise_amp sus, omega_0 sus, gamma sus,
                         of_bool (no_omega_0_denominator sus)]
      in (write_chunk 1 [start] params_dims params_data h5f, start + num_params))"

text \<open>The values of the enumeration \<^verbatim>\<open>direction\<close>, which index \<^verbatim>\<open>bias[]\<close>.\<close>

fun direction_index :: "direction \<Rightarrow> nat" where
  "direction_index X = 0"
| "direction_index Y = 1"
| "direction_index Z = 2"
| "direction_index R = 3"
| "direction_index Phi = 4"
| "direction_index NO_DIRECTION = 5"

text \<open>\<^verbatim>\<open>gyrotropic_susceptibility::dump_params\<close> (lines 432-441).\<close>

definition gyrotropic_dump_params ::
  "'a gyrotropic_susceptibility_scheme \<Rightarrow> h5file \<times> nat \<Rightarrow> h5file \<times> nat" where
  "gyrotropic_dump_params sus st =
     (let h5f = fst st; start = snd st;
          num_params = 9;
          params_dims = [num_params];
          bias = [gyro_tensor sus Y Z, gyro_tensor sus Z X, gyro_tensor sus X Y];
          params_data = [8, real_of_int (get_id sus),
                         bias ! direction_index X, bias ! direction_index Y, bias ! direction_index Z,
                         alpha sus, omega_0 sus, gamma sus, of_bool (no_omega_0_denominator sus)]
      in (write_chunk 1 [start] params_dims params_data h5f, start + num_params))"

subsection \<open>The noisy Lorentzian update\<close>

text \<open>
  \<^verbatim>\<open>noisy_lorentzian_susceptibility::update_P\<close> (lines 292-314). The generator
  \<^verbatim>\<open>gaussian_random(mean, stddev)\<close> is an external collaborator with a state of its
  own: it is a parameter, a function from the two arguments and the state of the generator
  to the draw and the next state. First the amplitude \<^verbatim>\<open>amp\<close> (lines 298-300).
\<close>

definition noise_amplitude :: "'a noisy_lorentzian_susceptibility_scheme \<Rightarrow> real \<Rightarrow> real" where
  "noise_amplitude sus dt =
     (let g2pi = gamma sus * 2 * pi;
          w2pi = omega_0 sus * 2 * pi
      in w2pi * noise_amp sus * sqrt g2pi * dt * dt / (1 + g2pi * dt / 2))"

text \<open>
  The loop over the owned points (line 308): each point adds one draw of mean 0 and
  deviation \<^verbatim>\<open>amp * sqrt(s[i])\<close> to \<^verbatim>\<open>p[i]\<close>.
\<close>

definition noise_loop ::
  "(real \<Rightarrow> real \<Rightarrow> 'g \<Rightarrow> real \<times> 'g) \<Rightarrow> real \<Rightarrow> array \<Rightarrow> int list \<Rightarrow> array \<times> 'g \<Rightarrow> array \<times> 'g" where
  "noise_loop gaussian_random amp s owned =
     fold (\<lambda>i st. let r = gaussian_random 0 (amp * sqrt (s i)) (snd st)
                   in ((fst st)(i := fst st i + fst r), snd r)) owned"

text \<open>The body of \<^verbatim>\<open>FOR_COMPONENTS(c) DOCMP2\<close> (lines 302-313).\<close>

definition noisy_update_P_body ::
  "meep_hpp \<Rightarrow> 'a noisy_lorentzian_susceptibility_scheme \<Rightarrow> (real \<Rightarrow> real \<Rightarrow> 'g \<Rightarrow> real \<times> 'g) \<Rightarrow> grid_volume
     \<Rightarrow> real \<Rightarrow> component \<Rightarrow> nat \<Rightarrow> lorentzian_data \<times> 'g \<Rightarrow> error + lorentzian_data \<times> 'g" where
  "noisy_update_P_body h sus gaussian_random gv amp c cmp st =
     (let d = fst st in
      case P d c cmp of
        None \<Rightarrow> Inr st
      | Some p \<Rightarrow>
          (case sigma sus c (component_direction h c) of
             None \<Rightarrow> Inr st
           | Some s \<Rightarrow>
               let r = noise_loop gaussian_random amp s (LOOP_OVER_VOL_OWNED gv c) (p, snd st)
               in Inr (d\<lparr>P := set_ptr (P d) c cmp (Some (fst r))\<rparr>, snd r)))"

text \<open>The Lorentzian update first (line 295), then the noise.\<close>

definition noisy_update_P ::
  "meep_hpp \<Rightarrow> 'a noisy_lorentzian_susceptibility_scheme \<Rightarrow> (real \<Rightarrow> real \<Rightarrow> 'g \<Rightarrow> real \<times> 'g)
     \<Rightarrow> field_table \<Rightarrow> field_table \<Rightarrow> real \<Rightarrow> grid_volume
     \<Rightarrow> lorentzian_data option \<times> 'g \<Rightarrow> error + lorentzian_data \<times> 'g" where
  "noisy_update_P h sus gaussian_random W W_prev dt gv st =
     (case update_P h sus W W_prev dt gv (fst st) of
        Inl e \<Rightarrow> Inl e
      | Inr d \<Rightarrow>
          for_each FOR_COMPONENTS
            (\<lambda>c. for_each DOCMP2
               (noisy_update_P_body h sus gaussian_random gv (noise_amplitude sus dt) c))
            (d, snd st))"

subsection \<open>The gyrotropic term\<close>

text \<open>
  Modelled from the spec: the class \<^verbatim>\<open>vec\<close> is missing. The bias is a vector of
  three Cartesian components; the spec has the tensor hold the "unit-bias-component"s, so
  \<^verbatim>\<open>abs\<close> is the Euclidean length and the division is by components.
\<close>

record vec =
  vec_x :: real
  vec_y :: real
  vec_z :: real

definition vec_abs :: "vec \<Rightarrow> real" where
  "vec_abs v = sqrt (vec_x v * vec_x v + vec_y v * vec_y v + vec_z v * vec_z v)"

definition vec_div :: "vec \<Rightarrow> real \<Rightarrow> vec" where
  "vec_div v a = \<lparr>vec_x = vec_x v / a, vec_y = vec_y v / a, vec_z = vec_z v / a\<rparr>"

text \<open>
  \<^verbatim>\<open>gyro_tensor\<close> is \<^verbatim>\<open>double[3][3]\<close>: only \<^verbatim>\<open>X\<close>, \<^verbatim>\<open>Y\<close> and
  \<^verbatim>\<open>Z\<close> index it.
\<close>

definition in_tensor :: "direction \<Rightarrow> bool" where
  "in_tensor a = (a = X \<or> a = Y \<or> a = Z)"

definition tensor_set ::
  "(direction \<Rightarrow> direction \<Rightarrow> real) \<Rightarrow> direction \<Rightarrow> direction \<Rightarrow> real \<Rightarrow> direction \<Rightarrow> direction \<Rightarrow> real" where
  "tensor_set T a b v = T(a := (T a)(b := v))"

text \<open>
  Modelled from the spec: the constructors of the base classes are in the missing header.
  The spec has the identifier "assigned at construction, monotonically increasing across
  the process" from the counter \<^verbatim>\<open>cur_id\<close> (line 38), and a new term has no sigma
  array: every pair is trivial.
\<close>

definition lorentzian_susceptibility_new ::
  "real \<Rightarrow> real \<Rightarrow> bool \<Rightarrow> int \<Rightarrow> lorentzian_susceptibility \<times> int" where
  "lorentzian_susceptibility_new omega_0' gamma' no_omega_0_denominator' cur_id =
     (\<lparr>sus_id = cur_id, sus_ntot = 0, sigma = (\<lambda>c d. None), trivial_sigma = (\<lambda>c d. True),
       omega_0 = omega_0', gamma = gamma', no_omega_0_denominator = no_omega_0_denominator'\<rparr>,
      cur_id + 1)"

text \<open>
  The constructor \<^verbatim>\<open>gyrotropic_susceptibility::gyrotropic_susceptibility\<close> (lines
  326-334): the tensor holds the components of the bias divided by its length.
\<close>

definition gyrotropic_susceptibility_new ::
  "vec \<Rightarrow> real \<Rightarrow> real \<Rightarrow> real \<Rightarrow> int \<Rightarrow> gyrotropic_susceptibility \<times> int" where
  "gyrotropic_susceptibility_new bias alpha' omega_0' gamma' cur_id =
     (let base = lorentzian_susceptibility_new omega_0' gamma' False cur_id;
          bn = vec_div bias (max (vec_abs bias) (1 / 10 ^ 10));
          T0 = (\<lambda>a b. 0);
          T1 = tensor_set (tensor_set T0 X Y (vec_z bn)) Y X (- vec_z bn);
          T2 = tensor_set (tensor_set T1 Y Z (vec_x bn)) Z Y (- vec_x bn);
          T3 = tensor_set (tensor_set T2 Z X (vec_y bn)) X Z (- vec_y bn)
      in (lorentzian_susceptibility.extend (fst base) \<lparr>alpha = alpha', gyro_tensor = T3\<rparr>, snd base))"

text \<open>
  The inverse that \<^verbatim>\<open>update_P\<close> builds (lines 396-407); \<open>mat3\<close> lists the
  nine entries by rows.
\<close>

definition mat3 ::
  "real \<Rightarrow> real \<Rightarrow> real \<Rightarrow> real \<Rightarrow> real \<Rightarrow> real \<Rightarrow> real \<Rightarrow> real \<Rightarrow> real \<Rightarrow> direction \<Rightarrow> direction \<Rightarrow> real" where
  "mat3 xx xy xz yx yy yz zx zy zz a b =
     (case a of
        X \<Rightarrow> (case b of X \<Rightarrow> xx | Y \<Rightarrow> xy | Z \<Rightarrow> xz | _ \<Rightarrow> 0)
      | Y \<Rightarrow> (case b of X \<Rightarrow> yx | Y \<Rightarrow> yy | Z \<Rightarrow> yz | _ \<Rightarrow> 0)
      | Z \<Rightarrow> (case b of X \<Rightarrow> zx | Y \<Rightarrow> zy | Z \<Rightarrow> zz | _ \<Rightarrow> 0)
      | _ \<Rightarrow> 0)"

definition gyro_inv :: "real \<Rightarrow> real \<Rightarrow> real \<Rightarrow> real \<Rightarrow> direction \<Rightarrow> direction \<Rightarrow> real" where
  "gyro_inv ub gx gy gz =
     (let invdet = 1 / ub / (ub * ub + gx * gx + gy * gy + gz * gz)
      in mat3 (invdet * (ub * ub + gx * gx)) (invdet * (gx * gy - ub * gz)) (invdet * (gx * gz + ub * gy))
              (invdet * (gy * gx + ub * gz)) (invdet * (ub * ub + gy * gy)) (invdet * (gy * gz - ub * gx))
              (invdet * (gz * gx - ub * gy)) (invdet * (gz * gy + ub * gx)) (invdet * (ub * ub + gz * gz)))"








subsection \<open>A concrete header\<close>

text \<open>
  Modelled from the spec: the inline functions of \<^verbatim>\<open>meep.hpp\<close> are missing. The
  spec has "each physical field (electric or magnetic)" with "up to three Cartesian
  directions", and a flux or displacement type paired with each field type. The instance
  below gives the components of E, H, D and B their directions (Cartesian and cylindrical),
  cycles X, Y, Z (or Z, R, Phi in cylindrical coordinates) and pairs the components of two
  field types by direction. It serves to evaluate the model at concrete inputs.
\<close>

fun hpp_is_electric :: "component \<Rightarrow> bool" where
  "hpp_is_electric c = (c \<in> set [Ex, Ey, Er, Ep, Ez])"

fun hpp_is_magnetic :: "component \<Rightarrow> bool" where
  "hpp_is_magnetic c = (c \<in> set [Hx, Hy, Hr, Hp, Hz])"

fun hpp_component_direction :: "component \<Rightarrow> direction" where
  "hpp_component_direction c =
     (if c \<in> set [Ex, Hx, Dx, Bx] then X
      else if c \<in> set [Ey, Hy, Dy, By] then Y
      else if c \<in> set [Ez, Hz, Dz, Bz] then Z
      else if c \<in> set [Er, Hr, Dr, Br] then R
      else if c \<in> set [Ep, Hp, Dp, Bp] then Phi
      else NO_DIRECTION)"

fun hpp_components_of :: "component \<Rightarrow> component list" where
  "hpp_components_of c =
     (if c \<in> set [Ex, Ey, Er, Ep, Ez] then [Ex, Ey, Ez, Er, Ep]
      else if c \<in> set [Hx, Hy, Hr, Hp, Hz] then [Hx, Hy, Hz, Hr, Hp]
      else if c \<in> set [Dx, Dy, Dr, Dp, Dz] then [Dx, Dy, Dz, Dr, Dp]
      else if c \<in> set [Bx, By, Br, Bp, Bz] then [Bx, By, Bz, Br, Bp]
      else [c, c, c, c, c])"

fun hpp_direction_component :: "component \<Rightarrow> direction \<Rightarrow> component" where
  "hpp_direction_component c d =
     (if d = NO_DIRECTION then c else hpp_components_of c ! direction_index d)"

fun hpp_direction_of_index :: "int \<Rightarrow> direction" where
  "hpp_direction_of_index n =
     (if n = 0 then X else if n = 1 then Y else if n = 2 then Z else if n = 3 then R
      else if n = 4 then Phi else NO_DIRECTION)"

text \<open>The remainder of C, which truncates towards zero.\<close>

fun c_rem :: "int \<Rightarrow> int \<Rightarrow> int" where
  "c_rem a b = (if 0 \<le> a then a mod b else - ((- a) mod b))"

fun hpp_cycle_direction :: "ndim \<Rightarrow> direction \<Rightarrow> int \<Rightarrow> direction" where
  "hpp_cycle_direction dm d shift =
     (let start = (if dm = Dcyl then 2 else 0)
      in hpp_direction_of_index (c_rem (int (direction_index d) - start + shift) 3 + start))"

fun hpp_first_field_component :: "field_type \<Rightarrow> component" where
  "hpp_first_field_component ft =
     (if ft = E_stuff then Ex else if ft = H_stuff then Hx else if ft = D_stuff then Dx
      else if ft = B_stuff then Bx else NO_COMPONENT)"

fun hpp_field_type_component :: "field_type \<Rightarrow> component \<Rightarrow> component" where
  "hpp_field_type_component ft c =
     hpp_direction_component (hpp_first_field_component ft) (hpp_component_direction c)"

fun hpp_FOR_FT_COMPONENTS :: "field_type \<Rightarrow> component list" where
  "hpp_FOR_FT_COMPONENTS ft =
     (if ft = E_stuff then [Ex, Ey, Er, Ep, Ez] else if ft = H_stuff then [Hx, Hy, Hr, Hp, Hz]
      else if ft = D_stuff then [Dx, Dy, Dr, Dp, Dz] else if ft = B_stuff then [Bx, By, Br, Bp, Bz]
      else [])"

definition meep :: meep_hpp where
  "meep =
     \<lparr>is_electric = hpp_is_electric,
      is_magnetic = hpp_is_magnetic,
      component_direction = hpp_component_direction,
      direction_component = hpp_direction_component,
      cycle_direction = hpp_cycle_direction,
      field_type_component = hpp_field_type_component,
      FOR_FT_COMPONENTS = hpp_FOR_FT_COMPONENTS\<rparr>"

subsection \<open>Matrices over the three Cartesian directions\<close>

definition mat3_id :: "direction \<Rightarrow> direction \<Rightarrow> real" where
  "mat3_id a b = (if a = b then 1 else 0)"

definition mat3_mul ::
  "(direction \<Rightarrow> direction \<Rightarrow> real) \<Rightarrow> (direction \<Rightarrow> direction \<Rightarrow> real) \<Rightarrow> direction \<Rightarrow> direction \<Rightarrow> real" where
  "mat3_mul A B a b = A a X * B X b + A a Y * B Y b + A a Z * B Z b"

text \<open>
  The skew-symmetric matrix with the entry \<open>gx\<close> at \<^verbatim>\<open>[Y][Z]\<close>, \<open>gy\<close> at
  \<^verbatim>\<open>[Z][X]\<close> and \<open>gz\<close> at \<^verbatim>\<open>[X][Y]\<close>: the places of the tensor from
  which \<^verbatim>\<open>update_P\<close> reads them (lines 393-395), with the signs the constructor
  gives the mirrored places (lines 331-333).
\<close>

definition skew_tensor :: "real \<Rightarrow> real \<Rightarrow> real \<Rightarrow> direction \<Rightarrow> direction \<Rightarrow> real" where
  "skew_tensor gx gy gz = mat3 0 gz (- gy) (- gz) 0 gx gy (- gx) 0"

text \<open>
  The matrix of the system that the second loop solves. The first loop builds
  \<open>(ua I + va T) P\<close> plus the forcing, with the tensor \<open>T\<close> added; the matching
  left-hand side is \<open>ub I + G\<close> with \<open>G = vb T\<close>.
\<close>

definition gyro_system :: "real \<Rightarrow> (direction \<Rightarrow> direction \<Rightarrow> real) \<Rightarrow> direction \<Rightarrow> direction \<Rightarrow> real" where
  "gyro_system ub G a b = ub * mat3_id a b + G a b"

text \<open>The system matrix in the spec's words, \<open>ub I - G\<close>.\<close>

definition spec_system :: "real \<Rightarrow> (direction \<Rightarrow> direction \<Rightarrow> real) \<Rightarrow> direction \<Rightarrow> direction \<Rightarrow> real" where
  "spec_system ub G a b = ub * mat3_id a b - G a b"

subsection \<open>The concrete scenario of the spec\<close>

text \<open>
  The scenario of section 8: \<open>omega_0 = 1\<close>, \<open>gamma = 0.1\<close>, a single grid point,
  sigma 1 and driving field 1 on the component \<^verbatim>\<open>Ex\<close>, and the polarization that
  \<^verbatim>\<open>init_internal_data\<close> allocates, which is zero. The time step of the scenario
  is \<open>0.01\<close>.
\<close>

definition scenario_sus :: lorentzian_susceptibility where
  "scenario_sus =
     \<lparr>sus_id = 0, sus_ntot = 1,
      sigma = (\<lambda>c d. if c = Ex \<and> d = X then Some (\<lambda>i. 1) else None),
      trivial_sigma = (\<lambda>c d. if c = Ex \<and> d = X then False else True),
      omega_0 = 1, gamma = 1 / 10, no_omega_0_denominator = False\<rparr>"

definition scenario_W :: field_table where
  "scenario_W = (\<lambda>c cmp. if c = Ex \<and> cmp = 0 then Some (\<lambda>i. 1) else None)"

definition scenario_gv :: grid_volume where
  "scenario_gv = \<lparr>dim = D1, stride = (\<lambda>d. if d = Z then 1 else 0), gv_ntot = 1,
                   LOOP_OVER_VOL_OWNED = (\<lambda>c. [0])\<rparr>"

definition scenario_data :: lorentzian_data where
  "scenario_data = init_internal_data meep scenario_sus scenario_W (1 / 100) scenario_gv"

subsection \<open>The update in closed form\<close>

text \<open>
  The value that the three loop bodies assign to \<^verbatim>\<open>p[i]\<close>, as a function of the
  current value, the previous value and the forcing term.
\<close>

definition recurrence :: "lorentzian_consts \<Rightarrow> real \<Rightarrow> real \<Rightarrow> real \<Rightarrow> real" where
  "recurrence k pcur pprev forcing =
     gamma1inv k * (pcur * (2 - omega0dtsqr_denom k) - gamma1 k * pprev + omega0dtsqr k * forcing)"

text \<open>
  The common shape of the three loops: the points that pass the test \<open>G\<close> are updated
  with the forcing term \<open>F\<close>.
\<close>

definition point_loop ::
  "lorentzian_consts \<Rightarrow> (int \<Rightarrow> bool) \<Rightarrow> (int \<Rightarrow> real) \<Rightarrow> int list \<Rightarrow> array \<times> ptr \<Rightarrow> error + array \<times> ptr" where
  "point_loop k G F owned =
     for_each owned (\<lambda>i st. if G i then update_point k (F i) i st else Inr st)"

text \<open>
  The term that a coupling direction adds to the forcing: \<^verbatim>\<open>OFFDIAG\<close> when the
  direction has a sigma array and a driving field, nothing otherwise.
\<close>

definition offdiag_term :: "ptr \<Rightarrow> ptr \<Rightarrow> int \<Rightarrow> int \<Rightarrow> int \<Rightarrow> real" where
  "offdiag_term s1 w1 is1 is i =
     (case (s1, w1) of (Some s1a, Some w1a) \<Rightarrow> OFFDIAG s1a w1a is1 is i | _ \<Rightarrow> 0)"

text \<open>
  The direction, the driving field, the sigma pointer and the stride that \<^verbatim>\<open>update_P\<close>
  computes for the coupling direction \<open>n\<close>, 1 or 2 (lines 198-207), and the stride
  \<^verbatim>\<open>is\<close> of the component itself (line 197).
\<close>

definition offdiag_dir :: "meep_hpp \<Rightarrow> grid_volume \<Rightarrow> component \<Rightarrow> int \<Rightarrow> direction" where
  "offdiag_dir h gv c n = cycle_direction h (dim gv) (component_direction h c) n"

definition offdiag_W :: "meep_hpp \<Rightarrow> field_table \<Rightarrow> grid_volume \<Rightarrow> component \<Rightarrow> nat \<Rightarrow> int \<Rightarrow> ptr" where
  "offdiag_W h W gv c cmp n = W (direction_component h c (offdiag_dir h gv c n)) cmp"

definition offdiag_sigma ::
  "meep_hpp \<Rightarrow> 'a susceptibility_scheme \<Rightarrow> field_table \<Rightarrow> grid_volume \<Rightarrow> component \<Rightarrow> nat \<Rightarrow> int \<Rightarrow> ptr" where
  "offdiag_sigma h sus W gv c cmp n =
     (if offdiag_W h W gv c cmp n \<noteq> None then sigma sus c (offdiag_dir h gv c n) else None)"

definition offdiag_stride :: "meep_hpp \<Rightarrow> grid_volume \<Rightarrow> component \<Rightarrow> int \<Rightarrow> int" where
  "offdiag_stride h gv c n = stride gv (offdiag_dir h gv c n) * (if is_magnetic h c then - 1 else 1)"

text \<open>
  The internal data is well formed when every (component, copy) of the loops that has an
  array of \<^verbatim>\<open>P\<close> has one of \<^verbatim>\<open>P_prev\<close>, as \<^verbatim>\<open>init_internal_data\<close>
  allocates them.
\<close>

definition wf_data :: "lorentzian_data \<Rightarrow> bool" where
  "wf_data d = list_all (\<lambda>c. list_all (\<lambda>cmp. P d c cmp = None \<or> P_prev d c cmp \<noteq> None) DOCMP2) FOR_COMPONENTS"

definition own_stride :: "meep_hpp \<Rightarrow> grid_volume \<Rightarrow> component \<Rightarrow> int" where
  "own_stride h gv c = stride gv (component_direction h c) * (if is_magnetic h c then - 1 else 1)"

text \<open>
  Whether \<^verbatim>\<open>update_P\<close> updates the point \<open>i\<close> of a component, and the forcing
  term it uses there: the isotropic loop updates every point, the anisotropic loops the
  points with a nonzero \<^verbatim>\<open>s[i]\<close>.
\<close>

definition point_guard ::
  "meep_hpp \<Rightarrow> 'a susceptibility_scheme \<Rightarrow> field_table \<Rightarrow> grid_volume \<Rightarrow> component \<Rightarrow> nat \<Rightarrow> array \<Rightarrow> int \<Rightarrow> bool" where
  "point_guard h sus W gv c cmp s i =
     ((offdiag_sigma h sus W gv c cmp 1 = None \<and> offdiag_sigma h sus W gv c cmp 2 = None) \<or> s i \<noteq> 0)"

definition point_forcing ::
  "meep_hpp \<Rightarrow> 'a susceptibility_scheme \<Rightarrow> field_table \<Rightarrow> grid_volume \<Rightarrow> component \<Rightarrow> nat \<Rightarrow> array \<Rightarrow> array \<Rightarrow> int \<Rightarrow> real" where
  "point_forcing h sus W gv c cmp w s i =
     s i * w i
     + offdiag_term (offdiag_sigma h sus W gv c cmp 1) (offdiag_W h W gv c cmp 1)
         (offdiag_stride h gv c 1) (own_stride h gv c) i
     + offdiag_term (offdiag_sigma h sus W gv c cmp 2) (offdiag_W h W gv c cmp 2)
         (offdiag_stride h gv c 2) (own_stride h gv c) i"

text \<open>
  What one pass of the loop body does to the pair of pointers of a (component, copy).
\<close>

definition update_P_entry ::
  "meep_hpp \<Rightarrow> 'a lorentzian_susceptibility_scheme \<Rightarrow> field_table \<Rightarrow> grid_volume \<Rightarrow> lorentzian_consts
     \<Rightarrow> component \<Rightarrow> nat \<Rightarrow> ptr \<times> ptr \<Rightarrow> ptr \<times> ptr" where
  "update_P_entry h sus W gv k c cmp e =
     (case (fst e, snd e, W c cmp, sigma sus c (component_direction h c)) of
        (Some p, Some pp, Some w, Some s) \<Rightarrow>
          (case point_loop k (point_guard h sus W gv c cmp s) (point_forcing h sus W gv c cmp w s)
                  (LOOP_OVER_VOL_OWNED gv c) (p, Some pp) of
             Inr st \<Rightarrow> (Some (fst st), snd st)
           | Inl err \<Rightarrow> e)
      | _ \<Rightarrow> e)"

text \<open>
  The values at one point of the arrays of a (component, copy) after an update; \<open>None\<close>
  when the update faulted or the component has no array.
\<close>

definition P_value :: "error + lorentzian_data \<Rightarrow> component \<Rightarrow> nat \<Rightarrow> int \<Rightarrow> real option" where
  "P_value r c cmp i = (case r of Inl e \<Rightarrow> None | Inr d \<Rightarrow> map_option (\<lambda>p. p i) (P d c cmp))"

definition P_prev_value :: "error + lorentzian_data \<Rightarrow> component \<Rightarrow> nat \<Rightarrow> int \<Rightarrow> real option" where
  "P_prev_value r c cmp i = (case r of Inl e \<Rightarrow> None | Inr d \<Rightarrow> map_option (\<lambda>p. p i) (P_prev d c cmp))"

text \<open>
  The scenario with a sigma array that is zero at the point, and a state with
  \<^verbatim>\<open>P\<close> = 1 and \<^verbatim>\<open>P_prev\<close> = 0 there.
\<close>

definition zero_sigma_sus :: lorentzian_susceptibility where
  "zero_sigma_sus = scenario_sus\<lparr>sigma := (\<lambda>c d. if c = Ex \<and> d = X then Some (\<lambda>i. 0) else None)\<rparr>"

definition unit_data :: lorentzian_data where
  "unit_data =
     \<lparr>ntot = 1,
      P = (\<lambda>c cmp. if c = Ex \<and> cmp = 0 then Some (\<lambda>i. 1) else None),
      P_prev = (\<lambda>c cmp. if c = Ex \<and> cmp = 0 then Some (\<lambda>i. 0) else None)\<rparr>"

text \<open>
  A term whose only sigma array couples \<^verbatim>\<open>Ex\<close> to the direction \<^verbatim>\<open>Y\<close>,
  on a grid of two dimensions, with driving fields \<^verbatim>\<open>Ex\<close> and \<^verbatim>\<open>Ey\<close>.
\<close>

definition coupled_sus :: lorentzian_susceptibility where
  "coupled_sus =
     \<lparr>sus_id = 1, sus_ntot = 1,
      sigma = (\<lambda>c d. if c = Ex \<and> d = Y then Some (\<lambda>i. 1) else None),
      trivial_sigma = (\<lambda>c d. if c = Ex \<and> d = Y then False else True),
      omega_0 = 1, gamma = 1 / 10, no_omega_0_denominator = False\<rparr>"

definition coupled_W :: field_table where
  "coupled_W = (\<lambda>c cmp. if (c = Ex \<or> c = Ey) \<and> cmp = 0 then Some (\<lambda>i. 1) else None)"

definition plane_gv :: grid_volume where
  "plane_gv = \<lparr>dim = D2, stride = (\<lambda>d. if d = X then 2 else if d = Y then 1 else 0), gv_ntot = 4,
               LOOP_OVER_VOL_OWNED = (\<lambda>c. [0])\<rparr>"

definition coupled_data :: lorentzian_data where
  "coupled_data = init_internal_data meep coupled_sus coupled_W (1 / 100) plane_gv"

text \<open>
  The zero-sigma scenario with a second sigma array, which couples \<^verbatim>\<open>Ex\<close> to the
  direction \<^verbatim>\<open>Y\<close>: the update takes the 2x2 anisotropic path.
\<close>

definition aniso_zero_sus :: lorentzian_susceptibility where
  "aniso_zero_sus =
     scenario_sus\<lparr>sigma := (\<lambda>c d. if c = Ex \<and> d = X then Some (\<lambda>i. 0)
                                 else if c = Ex \<and> d = Y then Some (\<lambda>i. 1) else None)\<rparr>"

text \<open>
  The sigma arrays are not negative at the owned points: the domain on which the square
  root of line 308 is the real square root.
\<close>

definition sigma_nonneg :: "meep_hpp \<Rightarrow> 'a susceptibility_scheme \<Rightarrow> grid_volume \<Rightarrow> bool" where
  "sigma_nonneg h sus gv =
     list_all (\<lambda>c. case sigma sus c (component_direction h c) of
                      None \<Rightarrow> True
                    | Some s \<Rightarrow> list_all (\<lambda>i. 0 \<le> s i) (LOOP_OVER_VOL_OWNED gv c)) FOR_COMPONENTS"

text \<open>
  A generator to evaluate the noisy update with: its state is a counter, and the draw is
  the mean plus the deviation times the counter.
\<close>

definition counter_random :: "real \<Rightarrow> real \<Rightarrow> nat \<Rightarrow> real \<times> nat" where
  "counter_random mean stddev g = (mean + stddev * real g, Suc g)"

text \<open>The scenario as a noisy term, with the noise amplitudes 0 and 1.\<close>

definition quiet_sus :: noisy_lorentzian_susceptibility where
  "quiet_sus = lorentzian_susceptibility.extend scenario_sus \<lparr>noise_amp = 0\<rparr>"

definition noisy_sus :: noisy_lorentzian_susceptibility where
  "noisy_sus = lorentzian_susceptibility.extend scenario_sus \<lparr>noise_amp = 1\<rparr>"

text \<open>
  A term on \<^verbatim>\<open>Ex\<close> with the diagonal sigma array \<open>sx\<close> and the sigma pointers
  \<open>sy\<close> and \<open>sz\<close> of the two coupling directions (non-trivial where the pointer
  is non-null), driving fields with the pointers \<open>wy\<close> and \<open>wz\<close> for
  \<^verbatim>\<open>Ey\<close> and \<^verbatim>\<open>Ez\<close>, and a grid of three dimensions with the stride 2 along
  \<^verbatim>\<open>X\<close> and the strides \<open>ny\<close>, \<open>nz\<close> along \<^verbatim>\<open>Y\<close> and \<^verbatim>\<open>Z\<close>.
\<close>

definition branch_sus :: "array \<Rightarrow> ptr \<Rightarrow> ptr \<Rightarrow> lorentzian_susceptibility" where
  "branch_sus sx sy sz =
     \<lparr>sus_id = 2, sus_ntot = 8,
      sigma = (\<lambda>c d. if c = Ex \<and> d = X then Some sx else if c = Ex \<and> d = Y then sy
                      else if c = Ex \<and> d = Z then sz else None),
      trivial_sigma = (\<lambda>c d. \<not> (c = Ex \<and> (d = X \<or> d = Y \<and> sy \<noteq> None \<or> d = Z \<and> sz \<noteq> None))),
      omega_0 = 1, gamma = 1 / 10, no_omega_0_denominator = False\<rparr>"

definition branch_W :: "ptr \<Rightarrow> ptr \<Rightarrow> field_table" where
  "branch_W wy wz =
     (\<lambda>c cmp. if cmp \<noteq> 0 then None else if c = Ex then Some (\<lambda>i. 1) else if c = Ey then wy
               else if c = Ez then wz else None)"

definition branch_gv :: "int \<Rightarrow> int \<Rightarrow> grid_volume" where
  "branch_gv ny nz =
     \<lparr>dim = D3, stride = (\<lambda>d. if d = X then 2 else if d = Y then ny else if d = Z then nz else 0),
      gv_ntot = 8, LOOP_OVER_VOL_OWNED = (\<lambda>c. [0])\<rparr>"

text \<open>A field that varies along the grid: its value at the index \<open>i\<close> is \<open>i + 3\<close>.\<close>

definition ramp :: array where
  "ramp i = real_of_int i + 3"

text \<open>
  A term whose coupling to \<^verbatim>\<open>Y\<close> has a sigma array, non-trivial, and no driving
  field \<^verbatim>\<open>Ey\<close>; its diagonal sigma is zero at the point.
\<close>

definition undriven_sus :: lorentzian_susceptibility where
  "undriven_sus = branch_sus (\<lambda>i. 0) (Some (\<lambda>i. 2)) None"




section \<open>Verified properties\<close>

subsection \<open>needs_P\<close>

lemma FOR_DIRECTIONS_set: "set FOR_DIRECTIONS = {d. d \<noteq> NO_DIRECTION}"
proof -
  have "\<And>d. d \<in> set FOR_DIRECTIONS \<longleftrightarrow> d \<noteq> NO_DIRECTION"
    by (case_tac d) (simp_all add: FOR_DIRECTIONS_def)
  then show ?thesis by blast
qed

text \<open>
  C5: \<^verbatim>\<open>needs_P(c, cmp, W)\<close> is true exactly when the component is electric or
  magnetic and some direction \<open>d\<close> of \<^verbatim>\<open>FOR_DIRECTIONS\<close> (every direction but
  \<^verbatim>\<open>NO_DIRECTION\<close>) has a non-trivial \<^verbatim>\<open>sigma[c][d]\<close> and a non-null
  \<^verbatim>\<open>W[direction_component(c, d)][cmp]\<close>. So it is false for every component that
  is neither electric nor magnetic, whatever sigma and W are.
\<close>

theorem needs_P_iff:
  "(needs_P h sus c cmp W \<longleftrightarrow>
      (is_electric h c \<or> is_magnetic h c) \<and>
      (\<exists>d. d \<noteq> NO_DIRECTION \<and> \<not> trivial_sigma sus c d \<and> W (direction_component h c d) cmp \<noteq> None))
   \<and> (\<not> is_electric h c \<and> \<not> is_magnetic h c \<longrightarrow> \<not> needs_P h sus c cmp W)"
  by (auto simp add: needs_P_def list_ex_iff FOR_DIRECTIONS_set)

theorem needs_P_iff_witness:
  "needs_P meep scenario_sus Ex 0 scenario_W \<and> \<not> needs_P meep scenario_sus Ex 1 scenario_W
   \<and> \<not> needs_P meep scenario_sus Dx 0 scenario_W"
  using needs_P_iff [of meep scenario_sus Ex 0 scenario_W]
    needs_P_iff [of meep scenario_sus Ex 1 scenario_W]
    needs_P_iff [of meep scenario_sus Dx 0 scenario_W]
  by (auto simp add: meep_def scenario_sus_def scenario_W_def)

subsection \<open>The inverse of the gyrotropic update\<close>

lemma sumsq_nz: "ub \<noteq> 0 \<Longrightarrow> ub * ub + gx * gx + gy * gy + gz * gz \<noteq> (0::real)"
proof -
  assume "ub \<noteq> 0"
  then have "0 < ub * ub" by (auto simp add: zero_less_mult_iff)
  moreover have "0 \<le> gx * gx" "0 \<le> gy * gy" "0 \<le> gz * gz" by simp_all
  ultimately have "0 < ub * ub + gx * gx + gy * gy + gz * gz" by linarith
  then show ?thesis by simp
qed

lemma in_tensor_cases:
  "in_tensor a \<Longrightarrow> (a = X \<Longrightarrow> Q) \<Longrightarrow> (a = Y \<Longrightarrow> Q) \<Longrightarrow> (a = Z \<Longrightarrow> Q) \<Longrightarrow> Q"
  by (auto simp add: in_tensor_def)

text \<open>The tensor that the constructor builds is skew, with the unit bias as its entries.\<close>

lemma gyro_tensor_new:
  "gyro_tensor (fst (gyrotropic_susceptibility_new bias al om ga cid)) =
     (let bn = vec_div bias (max (vec_abs bias) (1 / 10 ^ 10))
      in (\<lambda>a b. skew_tensor (vec_x bn) (vec_y bn) (vec_z bn) a b))"
  apply (rule ext)+
  subgoal for a b
    apply (cases a; cases b)
                        apply (simp_all add: gyrotropic_susceptibility_new_def
        lorentzian_susceptibility_new_def Let_def tensor_set_def skew_tensor_def mat3_def
        lorentzian_susceptibility.defs)
    done
  done

lemma gyrotropic_susceptibility_new_fields:
  "sus_id (fst (gyrotropic_susceptibility_new bias al om ga cid)) = cid"
  "alpha (fst (gyrotropic_susceptibility_new bias al om ga cid)) = al"
  "omega_0 (fst (gyrotropic_susceptibility_new bias al om ga cid)) = om"
  "gamma (fst (gyrotropic_susceptibility_new bias al om ga cid)) = ga"
  "no_omega_0_denominator (fst (gyrotropic_susceptibility_new bias al om ga cid)) = False"
  "snd (gyrotropic_susceptibility_new bias al om ga cid) = cid + 1"
  by (simp_all add: gyrotropic_susceptibility_new_def lorentzian_susceptibility_new_def Let_def
      lorentzian_susceptibility.defs)

lemma skew_tensor_scale:
  "vb * skew_tensor gx gy gz a b = skew_tensor (vb * gx) (vb * gy) (vb * gz) a b"
  by (cases a; cases b) (simp_all add: skew_tensor_def mat3_def)

text \<open>
  C2, as the spec states it, fails: with the tensor of the bias \<open>(1, 0, 0)\<close>,
  \<open>ub = 1\<close> and \<open>vb = 1\<close>, the product of the constructed inverse and \<open>ub I - G\<close>,
  \<open>G\<close> the tensor scaled by \<open>vb\<close>, has 0 at \<^verbatim>\<open>[Y][Y]\<close>, where the identity has 1.
\<close>

theorem gyro_inv_spec_system_counterexample:
  "mat3_mul
     (gyro_inv 1
        (1 * gyro_tensor (fst (gyrotropic_susceptibility_new \<lparr>vec_x = 1, vec_y = 0, vec_z = 0\<rparr> 0 0 0 0)) Y Z)
        (1 * gyro_tensor (fst (gyrotropic_susceptibility_new \<lparr>vec_x = 1, vec_y = 0, vec_z = 0\<rparr> 0 0 0 0)) Z X)
        (1 * gyro_tensor (fst (gyrotropic_susceptibility_new \<lparr>vec_x = 1, vec_y = 0, vec_z = 0\<rparr> 0 0 0 0)) X Y))
     (spec_system 1
        (skew_tensor
          (1 * gyro_tensor (fst (gyrotropic_susceptibility_new \<lparr>vec_x = 1, vec_y = 0, vec_z = 0\<rparr> 0 0 0 0)) Y Z)
          (1 * gyro_tensor (fst (gyrotropic_susceptibility_new \<lparr>vec_x = 1, vec_y = 0, vec_z = 0\<rparr> 0 0 0 0)) Z X)
          (1 * gyro_tensor (fst (gyrotropic_susceptibility_new \<lparr>vec_x = 1, vec_y = 0, vec_z = 0\<rparr> 0 0 0 0)) X Y)))
     Y Y = 0
   \<and> mat3_id Y Y = 1"
  by (simp add: gyro_tensor_new vec_div_def vec_abs_def skew_tensor_def mat3_def mat3_mul_def
      gyro_inv_def spec_system_def mat3_id_def Let_def)

text \<open>
  C2, amended: for every \<open>ub \<noteq> 0\<close> and every \<open>gx\<close>, \<open>gy\<close>, \<open>gz\<close>, the matrix that
  \<^verbatim>\<open>update_P\<close> builds is the exact inverse, on both sides, of \<open>ub I + G\<close>, where
  \<open>G\<close> is the skew-symmetric matrix with \<open>gx\<close> at \<^verbatim>\<open>[Y][Z]\<close>, \<open>gy\<close> at
  \<^verbatim>\<open>[Z][X]\<close> and \<open>gz\<close> at \<^verbatim>\<open>[X][Y]\<close> (the tensor scaled by \<open>vb\<close>).
\<close>

theorem gyro_inv_inverse:
  assumes ub: "ub \<noteq> 0" and a: "in_tensor a" and b: "in_tensor b"
  shows "mat3_mul (gyro_inv ub gx gy gz) (gyro_system ub (skew_tensor gx gy gz)) a b = mat3_id a b
       \<and> mat3_mul (gyro_system ub (skew_tensor gx gy gz)) (gyro_inv ub gx gy gz) a b = mat3_id a b"
proof -
  define k where "k = 1 / ub / (ub * ub + gx * gx + gy * gy + gz * gz)"
  have nz: "ub * ub + gx * gx + gy * gy + gz * gz \<noteq> 0" using ub by (rule sumsq_nz)
  have hk: "k * (ub * (ub * ub + gx * gx + gy * gy + gz * gz)) = 1"
    using ub nz by (simp add: k_def)
  have inv: "gyro_inv ub gx gy gz =
      mat3 (k * (ub * ub + gx * gx)) (k * (gx * gy - ub * gz)) (k * (gx * gz + ub * gy))
           (k * (gy * gx + ub * gz)) (k * (ub * ub + gy * gy)) (k * (gy * gz - ub * gx))
           (k * (gz * gx - ub * gy)) (k * (gz * gy + ub * gx)) (k * (ub * ub + gz * gz))"
    by (simp add: gyro_inv_def k_def Let_def)
  show ?thesis
    using a b
    apply (elim in_tensor_cases)
            apply (simp_all add: inv mat3_mul_def mat3_def mat3_id_def skew_tensor_def gyro_system_def)
            apply (insert hk)
            apply (simp_all add: algebra_simps)
    done
qed

theorem gyro_inv_inverse_witness:
  "mat3_mul (gyro_inv 2 1 0 0) (gyro_system 2 (skew_tensor 1 0 0)) Y Y = 1
   \<and> mat3_mul (gyro_system 2 (skew_tensor 1 0 0)) (gyro_inv 2 1 0 0) Y Y = 1
   \<and> mat3_mul (gyro_inv 2 1 0 0) (gyro_system 2 (skew_tensor 1 0 0)) Y Z = 0"
  using gyro_inv_inverse [of 2 Y Y 1 0 0] gyro_inv_inverse [of 2 Y Z 1 0 0]
  by (simp add: in_tensor_def mat3_id_def)

subsection \<open>dump_params\<close>

text \<open>
  C9, as the spec states it, fails for the gyrotropic term: built from the bias
  \<open>(2, 0, 0)\<close>, it writes 1, 0, 0 where the claim has the components 2, 0, 0 of the
  bias supplied at construction.
\<close>

theorem gyrotropic_dump_params_counterexample:
  "fst (gyrotropic_dump_params
          (fst (gyrotropic_susceptibility_new \<lparr>vec_x = 2, vec_y = 0, vec_z = 0\<rparr> 3 1 0 7)) ([], 0))
     = [(1, [0], [9], [8, 7, 1, 0, 0, 3, 1, 0, 0])]
   \<and> vec_x \<lparr>vec_x = 2, vec_y = 0, vec_z = 0\<rparr> = 2"
  by (simp add: gyro_tensor_new vec_div_def vec_abs_def skew_tensor_def mat3_def Let_def
      gyrotropic_dump_params_def write_chunk_def get_id_def gyrotropic_susceptibility_new_fields)

text \<open>
  C9, amended: \<^verbatim>\<open>dump_params\<close> writes one chunk at the offset and advances the
  offset by its length: 4, id, omega_0, gamma, flag (5 values) for the Lorentzian term;
  5, id, noise_amp, omega_0, gamma, flag (6 values) for the noisy term; and 8, id, the
  tensor entries \<^verbatim>\<open>[Y][Z]\<close>, \<^verbatim>\<open>[Z][X]\<close>, \<^verbatim>\<open>[X][Y]\<close>, alpha, omega_0, gamma,
  flag (9 values) for the gyrotropic term. For a term built by the constructor the three
  entries are the components of the bias divided by \<open>max |bias| 1e-10\<close>, the unit bias,
  and the flag is 0.
\<close>

theorem dump_params_layout:
  "dump_params sus (h5f, start) =
     (h5f @ [(1, [start], [5],
        [4, real_of_int (sus_id sus), omega_0 sus, gamma sus, of_bool (no_omega_0_denominator sus)])],
      start + 5)
   \<and> noisy_dump_params nsus (h5f, start) =
     (h5f @ [(1, [start], [6],
        [5, real_of_int (sus_id nsus), noise_amp nsus, omega_0 nsus, gamma nsus,
         of_bool (no_omega_0_denominator nsus)])],
      start + 6)
   \<and> gyrotropic_dump_params gsus (h5f, start) =
     (h5f @ [(1, [start], [9],
        [8, real_of_int (sus_id gsus), gyro_tensor gsus Y Z, gyro_tensor gsus Z X, gyro_tensor gsus X Y,
         alpha gsus, omega_0 gsus, gamma gsus, of_bool (no_omega_0_denominator gsus)])],
      start + 9)
   \<and> gyrotropic_dump_params (fst (gyrotropic_susceptibility_new bias al om ga cid)) (h5f, start) =
     (h5f @ [(1, [start], [9],
        [8, real_of_int cid,
         vec_x bias / max (vec_abs bias) (1 / 10 ^ 10),
         vec_y bias / max (vec_abs bias) (1 / 10 ^ 10),
         vec_z bias / max (vec_abs bias) (1 / 10 ^ 10),
         al, om, ga, 0])],
      start + 9)"
  by (simp add: dump_params_def noisy_dump_params_def gyrotropic_dump_params_def write_chunk_def
      get_id_def Let_def gyro_tensor_new gyrotropic_susceptibility_new_fields vec_div_def
      skew_tensor_def mat3_def)

subsection \<open>Loops\<close>

lemma for_each_append:
  "for_each (xs @ ys) body st =
     (case for_each xs body st of Inl e \<Rightarrow> Inl e | Inr st' \<Rightarrow> for_each ys body st')"
  by (induction xs arbitrary: st) (auto split: sum.splits)

lemma for_each_cong:
  "(\<And>i st. i \<in> set xs \<Longrightarrow> f i st = g i st) \<Longrightarrow> for_each xs f st = for_each xs g st"
  by (induction xs arbitrary: st) (auto split: sum.splits)

lemma for_each_nested:
  "for_each cs (\<lambda>c. for_each ms (body c)) st =
     for_each (List.product cs ms) (\<lambda>k. body (fst k) (snd k)) st"
proof (induction cs arbitrary: st)
  case Nil
  then show ?case by simp
next
  case (Cons c cs)
  have inner: "\<And>s. for_each (map (Pair c) ms) (\<lambda>k. body (fst k) (snd k)) s = for_each ms (body c) s"
  proof -
    fix s show "for_each (map (Pair c) ms) (\<lambda>k. body (fst k) (snd k)) s = for_each ms (body c) s"
      by (induction ms arbitrary: s) (auto split: sum.splits)
  qed
  show ?case
    by (simp add: for_each_append inner Cons.IH split: sum.splits)
qed

lemma for_each_success:
  assumes "\<And>i st. i \<in> set xs \<Longrightarrow> I st \<Longrightarrow> \<exists>st'. body i st = Inr st' \<and> I st'"
    and "I st"
  shows "\<exists>st'. for_each xs body st = Inr st' \<and> I st'"
  using assms
proof (induction xs arbitrary: st)
  case Nil
  then show ?case by simp
next
  case (Cons x xs)
  from Cons.prems obtain st1 where s1: "body x st = Inr st1" "I st1"
    by (meson list.set_intros(1))
  have "\<exists>st'. for_each xs body st1 = Inr st' \<and> I st'"
    by (rule Cons.IH) (use Cons.prems s1 in auto)
  then show ?case using s1 by simp
qed

lemma for_each_rel:
  assumes "distinct xs"
    and "\<And>i st st'. i \<in> set xs \<Longrightarrow> I st \<Longrightarrow> body i st = Inr st' \<Longrightarrow>
           I st' \<and> Q i (res i st) (res i st') \<and> (\<forall>j. j \<noteq> i \<longrightarrow> res j st' = res j st)"
    and "I st" and "for_each xs body st = Inr st'"
  shows "I st' \<and> (\<forall>i\<in>set xs. Q i (res i st) (res i st')) \<and> (\<forall>j. j \<notin> set xs \<longrightarrow> res j st' = res j st)"
  using assms
proof (induction xs arbitrary: st)
  case Nil
  then show ?case by simp
next
  case (Cons x xs)
  from Cons.prems(4) obtain st1 where s1: "body x st = Inr st1" and rest: "for_each xs body st1 = Inr st'"
    by (auto split: sum.splits)
  have step: "I st1 \<and> Q x (res x st) (res x st1) \<and> (\<forall>j. j \<noteq> x \<longrightarrow> res j st1 = res j st)"
    using Cons.prems(2)[of x st st1] Cons.prems(3) s1 by simp
  have ih: "I st' \<and> (\<forall>i\<in>set xs. Q i (res i st1) (res i st')) \<and> (\<forall>j. j \<notin> set xs \<longrightarrow> res j st' = res j st1)"
  proof (rule Cons.IH)
    show "distinct xs" using Cons.prems(1) by simp
    show "I st1" using step by simp
    show "for_each xs body st1 = Inr st'" by (rule rest)
    fix i st st'
    assume "i \<in> set xs" "I st" "body i st = Inr st'"
    then show "I st' \<and> Q i (res i st) (res i st') \<and> (\<forall>j. j \<noteq> i \<longrightarrow> res j st' = res j st)"
      using Cons.prems(2)[of i st st'] by simp
  qed
  have xn: "x \<notin> set xs" using Cons.prems(1) by simp
  show ?case
  proof (intro conjI ballI allI impI)
    show "I st'" using ih by simp
  next
    fix i assume i: "i \<in> set (x # xs)"
    show "Q i (res i st) (res i st')"
    proof (cases "i = x")
      case True
      then have "res x st' = res x st1" using ih xn by simp
      then show ?thesis using step True by simp
    next
      case False
      then have "i \<in> set xs" using i by simp
      moreover have "res i st1 = res i st" using step False by simp
      ultimately show ?thesis using ih by auto
    qed
  next
    fix j assume "j \<notin> set (x # xs)"
    then have "j \<noteq> x" "j \<notin> set xs" by auto
    then show "res j st' = res j st" using ih step by simp
  qed
qed

lemma update_point_Some:
  "update_point k f i (p, Some pp) = Inr (p(i := recurrence k (p i) (pp i) f), Some (pp(i := p i)))"
  by (simp add: update_point_def recurrence_def Let_def)

lemma point_loop_distinct:
  "distinct owned \<Longrightarrow>
   point_loop k G F owned (p, Some pp) =
     Inr ((\<lambda>i. if i \<in> set owned \<and> G i then recurrence k (p i) (pp i) (F i) else p i),
          Some (\<lambda>i. if i \<in> set owned \<and> G i then p i else pp i))"
proof (induction owned arbitrary: p pp)
  case Nil
  then show ?case by (simp add: point_loop_def)
next
  case (Cons j rest)
  have d: "distinct rest" and jn: "j \<notin> set rest" using Cons.prems by simp_all
  show ?case
  proof (cases "G j")
    case True
    have "point_loop k G F (j # rest) (p, Some pp) =
          point_loop k G F rest (p(j := recurrence k (p j) (pp j) (F j)), Some (pp(j := p j)))"
      using True by (simp add: point_loop_def update_point_Some)
    also have "\<dots> = Inr ((\<lambda>i. if i \<in> set (j # rest) \<and> G i then recurrence k (p i) (pp i) (F i) else p i),
          Some (\<lambda>i. if i \<in> set (j # rest) \<and> G i then p i else pp i))"
      using jn True by (subst Cons.IH[OF d]) (auto simp add: fun_eq_iff)
    finally show ?thesis .
  next
    case False
    have "point_loop k G F (j # rest) (p, Some pp) = point_loop k G F rest (p, Some pp)"
      using False by (simp add: point_loop_def)
    also have "\<dots> = Inr ((\<lambda>i. if i \<in> set (j # rest) \<and> G i then recurrence k (p i) (pp i) (F i) else p i),
          Some (\<lambda>i. if i \<in> set (j # rest) \<and> G i then p i else pp i))"
      using jn False by (subst Cons.IH[OF d]) (auto simp add: fun_eq_iff)
    finally show ?thesis .
  qed
qed

lemma point_loop_success:
  "\<exists>p' pp'. point_loop k G F owned (p, Some pp) = Inr (p', Some pp')"
proof (induction owned arbitrary: p pp)
  case Nil
  then show ?case by (simp add: point_loop_def)
next
  case (Cons j rest)
  then show ?case
    by (cases "G j") (simp_all add: point_loop_def update_point_Some)
qed

subsection \<open>The Lorentzian update, point by point\<close>

lemma isotropic_loop_point:
  "isotropic_loop k owned w s = point_loop k (\<lambda>i. True) (\<lambda>i. s i * w i) owned"
  by (simp add: isotropic_loop_def point_loop_def)

lemma anisotropic2_loop_point:
  "anisotropic2_loop k owned w s is (Some s1a) (Some w1a) is1 =
     point_loop k (\<lambda>i. s i \<noteq> 0) (\<lambda>i. s i * w i + OFFDIAG s1a w1a is1 is i) owned"
  by (simp add: anisotropic2_loop_def point_loop_def cong: if_cong)

lemma anisotropic3_loop_point:
  "anisotropic3_loop k owned w s is (Some s1a) (Some w1a) is1 (Some s2a) (Some w2a) is2 =
     point_loop k (\<lambda>i. s i \<noteq> 0)
       (\<lambda>i. s i * w i + OFFDIAG s1a w1a is1 is i + OFFDIAG s2a w2a is2 is i) owned"
  by (simp add: anisotropic3_loop_def point_loop_def cong: if_cong)

lemma update_P_loops_branches:
  "s1 \<noteq> None \<Longrightarrow> s2 \<noteq> None \<Longrightarrow>
     update_P_loops k owned w s is s1 w1 is1 s2 w2 is2 = anisotropic3_loop k owned w s is s1 w1 is1 s2 w2 is2"
  "s1 \<noteq> None \<Longrightarrow> s2 = None \<Longrightarrow>
     update_P_loops k owned w s is s1 w1 is1 s2 w2 is2 = anisotropic2_loop k owned w s is s1 w1 is1"
  "s1 = None \<Longrightarrow> s2 \<noteq> None \<Longrightarrow>
     update_P_loops k owned w s is s1 w1 is1 s2 w2 is2 = anisotropic2_loop k owned w s is s2 w2 is2"
  "s1 = None \<Longrightarrow> s2 = None \<Longrightarrow>
     update_P_loops k owned w s is s1 w1 is1 s2 w2 is2 = isotropic_loop k owned w s"
  by (auto simp add: update_P_loops_def select_branch_def Let_def)

lemma update_P_loops_point:
  assumes "s1 \<noteq> None \<Longrightarrow> w1 \<noteq> None" and "s2 \<noteq> None \<Longrightarrow> w2 \<noteq> None"
  shows "update_P_loops k owned w s is s1 w1 is1 s2 w2 is2 =
     point_loop k (\<lambda>i. (s1 = None \<and> s2 = None) \<or> s i \<noteq> 0)
       (\<lambda>i. s i * w i + offdiag_term s1 w1 is1 is i + offdiag_term s2 w2 is2 is i) owned"
proof (cases s1)
  case None
  note n1 = this
  show ?thesis
  proof (cases s2)
    case None
    then show ?thesis using n1
      by (simp add: update_P_loops_branches isotropic_loop_point offdiag_term_def)
  next
    case (Some s2a)
    then obtain w2a where "w2 = Some w2a" using assms(2) by auto
    then show ?thesis using n1 Some
      by (simp add: update_P_loops_branches anisotropic2_loop_point offdiag_term_def)
  qed
next
  case (Some s1a)
  then obtain w1a where w1: "w1 = Some w1a" using assms(1) by auto
  show ?thesis
  proof (cases s2)
    case None
    then show ?thesis using Some w1
      by (simp add: update_P_loops_branches anisotropic2_loop_point offdiag_term_def)
  next
    case (Some s2a)
    then obtain w2a where "w2 = Some w2a" using assms(2) by auto
    then show ?thesis using \<open>s1 = Some s1a\<close> w1 Some
      by (simp add: update_P_loops_branches anisotropic3_loop_point offdiag_term_def)
  qed
qed

lemma set_ptr_same: "set_ptr t c cmp (t c cmp) = t"
  by (simp add: set_ptr_def)

lemma set_ptr_apply:
  "set_ptr t c cmp v c' cmp' = (if c' = c \<and> cmp' = cmp then v else t c' cmp')"
  by (simp add: set_ptr_def)

lemma update_P_body_loops:
  assumes "P d c cmp = Some p" "W c cmp = Some w" "sigma sus c (component_direction h c) = Some s"
  shows "update_P_body h sus W gv k c cmp d =
     (case point_loop k (point_guard h sus W gv c cmp s) (point_forcing h sus W gv c cmp w s)
             (LOOP_OVER_VOL_OWNED gv c) (p, P_prev d c cmp) of
        Inl e \<Rightarrow> Inl e
      | Inr st \<Rightarrow> Inr (d\<lparr>P := set_ptr (P d) c cmp (Some (fst st)),
                         P_prev := set_ptr (P_prev d) c cmp (snd st)\<rparr>))"
proof -
  have "update_P_loops k (LOOP_OVER_VOL_OWNED gv c) w s (own_stride h gv c)
          (offdiag_sigma h sus W gv c cmp 1) (offdiag_W h W gv c cmp 1) (offdiag_stride h gv c 1)
          (offdiag_sigma h sus W gv c cmp 2) (offdiag_W h W gv c cmp 2) (offdiag_stride h gv c 2) =
        point_loop k (point_guard h sus W gv c cmp s) (point_forcing h sus W gv c cmp w s)
             (LOOP_OVER_VOL_OWNED gv c)"
    unfolding point_guard_def point_forcing_def
    by (rule update_P_loops_point) (auto simp add: offdiag_sigma_def split: if_splits)
  then have loops: "\<And>st. update_P_loops k (LOOP_OVER_VOL_OWNED gv c) w s (own_stride h gv c)
          (offdiag_sigma h sus W gv c cmp 1) (offdiag_W h W gv c cmp 1) (offdiag_stride h gv c 1)
          (offdiag_sigma h sus W gv c cmp 2) (offdiag_W h W gv c cmp 2) (offdiag_stride h gv c 2) st =
        point_loop k (point_guard h sus W gv c cmp s) (point_forcing h sus W gv c cmp w s)
             (LOOP_OVER_VOL_OWNED gv c) st"
    by simp
  have unf: "update_P_body h sus W gv k c cmp d =
     (case update_P_loops k (LOOP_OVER_VOL_OWNED gv c) w s (own_stride h gv c)
          (offdiag_sigma h sus W gv c cmp 1) (offdiag_W h W gv c cmp 1) (offdiag_stride h gv c 1)
          (offdiag_sigma h sus W gv c cmp 2) (offdiag_W h W gv c cmp 2) (offdiag_stride h gv c 2)
          (p, P_prev d c cmp) of
        Inl e \<Rightarrow> Inl e
      | Inr st \<Rightarrow> Inr (d\<lparr>P := set_ptr (P d) c cmp (Some (fst st)),
                         P_prev := set_ptr (P_prev d) c cmp (snd st)\<rparr>))"
    using assms
    by (simp add: update_P_body_def Let_def own_stride_def offdiag_sigma_def offdiag_W_def
        offdiag_stride_def offdiag_dir_def)
  show ?thesis unfolding unf loops ..
qed

lemma update_P_body_skip:
  "P d c cmp = None \<or> W c cmp = None \<or> sigma sus c (component_direction h c) = None \<Longrightarrow>
   update_P_body h sus W gv k c cmp d = Inr d"
  by (auto simp add: update_P_body_def split: option.splits)

lemma update_P_body_entry:
  assumes "P d c cmp = None \<or> P_prev d c cmp \<noteq> None"
  shows "update_P_body h sus W gv k c cmp d =
     Inr (d\<lparr>P := set_ptr (P d) c cmp (fst (update_P_entry h sus W gv k c cmp (P d c cmp, P_prev d c cmp))),
            P_prev := set_ptr (P_prev d) c cmp (snd (update_P_entry h sus W gv k c cmp (P d c cmp, P_prev d c cmp)))\<rparr>)"
proof (cases "P d c cmp = None \<or> W c cmp = None \<or> sigma sus c (component_direction h c) = None")
  case True
  then have "update_P_entry h sus W gv k c cmp (P d c cmp, P_prev d c cmp) = (P d c cmp, P_prev d c cmp)"
    by (auto simp add: update_P_entry_def split: option.splits)
  then show ?thesis using True by (simp add: update_P_body_skip set_ptr_same)
next
  case False
  then obtain p w s where v: "P d c cmp = Some p" "W c cmp = Some w"
      "sigma sus c (component_direction h c) = Some s" by auto
  with assms obtain pp where pp: "P_prev d c cmp = Some pp" by auto
  obtain p' pp' where l: "point_loop k (point_guard h sus W gv c cmp s) (point_forcing h sus W gv c cmp w s)
             (LOOP_OVER_VOL_OWNED gv c) (p, Some pp) = Inr (p', Some pp')"
    using point_loop_success by blast
  show ?thesis
    by (simp add: update_P_body_loops[where d=d and c=c and cmp=cmp and W=W and sus=sus and h=h, OF v] pp l update_P_entry_def v)
qed

lemma wf_data_iff:
  "wf_data d \<longleftrightarrow> (\<forall>c\<in>set FOR_COMPONENTS. \<forall>cmp\<in>set DOCMP2. P d c cmp = None \<or> P_prev d c cmp \<noteq> None)"
  by (simp add: wf_data_def list_all_iff)

lemma distinct_keys: "distinct (List.product FOR_COMPONENTS DOCMP2)"
  by (rule distinct_product) (simp_all add: FOR_COMPONENTS_def DOCMP2_def)

lemma update_P_entry_wf:
  assumes "fst e = None \<or> snd e \<noteq> None"
  shows "fst (update_P_entry h sus W gv k c cmp e) = None \<or> snd (update_P_entry h sus W gv k c cmp e) \<noteq> None"
proof (cases "\<exists>p pp w s. fst e = Some p \<and> snd e = Some pp \<and> W c cmp = Some w
      \<and> sigma sus c (component_direction h c) = Some s")
  case True
  then obtain p pp w s where v: "fst e = Some p" "snd e = Some pp" "W c cmp = Some w"
      "sigma sus c (component_direction h c) = Some s" by blast
  obtain p' pp' where l: "point_loop k (point_guard h sus W gv c cmp s) (point_forcing h sus W gv c cmp w s)
             (LOOP_OVER_VOL_OWNED gv c) (p, Some pp) = Inr (p', Some pp')"
    using point_loop_success by blast
  show ?thesis by (simp add: update_P_entry_def v l)
next
  case False
  then have "update_P_entry h sus W gv k c cmp e = e"
    by (auto simp add: update_P_entry_def split: option.splits)
  then show ?thesis using assms by simp
qed

lemma update_P_body_step:
  assumes wf: "wf_data d" and c: "c \<in> set FOR_COMPONENTS" and cmp: "cmp \<in> set DOCMP2"
  shows "\<exists>d'. update_P_body h sus W gv k c cmp d = Inr d' \<and> wf_data d' \<and> ntot d' = ntot d
     \<and> (P d' c cmp, P_prev d' c cmp) = update_P_entry h sus W gv k c cmp (P d c cmp, P_prev d c cmp)
     \<and> (\<forall>c' cmp'. (c', cmp') \<noteq> (c, cmp) \<longrightarrow> P d' c' cmp' = P d c' cmp' \<and> P_prev d' c' cmp' = P_prev d c' cmp')"
proof -
  let ?e = "update_P_entry h sus W gv k c cmp (P d c cmp, P_prev d c cmp)"
  let ?d' = "d\<lparr>P := set_ptr (P d) c cmp (fst ?e), P_prev := set_ptr (P_prev d) c cmp (snd ?e)\<rparr>"
  have ok: "P d c cmp = None \<or> P_prev d c cmp \<noteq> None"
    using wf c cmp by (simp add: wf_data_iff)
  have b: "update_P_body h sus W gv k c cmp d = Inr ?d'"
    by (rule update_P_body_entry[OF ok])
  have e: "fst ?e = None \<or> snd ?e \<noteq> None"
    by (rule update_P_entry_wf) (use ok in simp)
  have wf': "wf_data ?d'"
    unfolding wf_data_iff
  proof (intro ballI)
    fix c' cmp' assume m: "c' \<in> set FOR_COMPONENTS" "cmp' \<in> set DOCMP2"
    show "P ?d' c' cmp' = None \<or> P_prev ?d' c' cmp' \<noteq> None"
    proof (cases "c' = c \<and> cmp' = cmp")
      case True
      then show ?thesis using e by (simp add: set_ptr_apply)
    next
      case False
      then show ?thesis using wf m by (auto simp add: set_ptr_apply wf_data_iff)
    qed
  qed
  show ?thesis
    apply (rule exI[of _ ?d'])
    apply (intro conjI)
        apply (rule b)
       apply (rule wf')
      apply simp
     apply (simp add: set_ptr_apply)
    apply (auto simp add: set_ptr_apply)
    done
qed

lemma update_P_entries:
  assumes wf: "wf_data d"
  shows "\<exists>d'. update_P h sus W W_prev dt gv (Some d) = Inr d' \<and> wf_data d' \<and> ntot d' = ntot d
     \<and> (\<forall>c cmp. (P d' c cmp, P_prev d' c cmp) =
          (if c \<in> set FOR_COMPONENTS \<and> cmp \<in> set DOCMP2
           then update_P_entry h sus W gv (lorentzian_constants sus dt) c cmp (P d c cmp, P_prev d c cmp)
           else (P d c cmp, P_prev d c cmp)))"
proof -
  let ?k = "lorentzian_constants sus dt"
  let ?keys = "List.product FOR_COMPONENTS DOCMP2"
  let ?body = "\<lambda>key. update_P_body h sus W gv ?k (fst key) (snd key)"
  let ?I = "\<lambda>st. wf_data st \<and> ntot st = ntot d"
  let ?res = "\<lambda>key st. (P st (fst key) (snd key), P_prev st (fst key) (snd key))"
  let ?Q = "\<lambda>key e e'. e' = update_P_entry h sus W gv ?k (fst key) (snd key) e"
  have unf: "update_P h sus W W_prev dt gv (Some d) = for_each ?keys ?body d"
    by (simp add: update_P_def for_each_nested)
  have succ: "\<exists>d'. for_each ?keys ?body d = Inr d' \<and> ?I d'"
  proof (rule for_each_success)
    show "?I d" using wf by simp
    fix key st assume k: "key \<in> set ?keys" and i: "?I st"
    then have m: "fst key \<in> set FOR_COMPONENTS" "snd key \<in> set DOCMP2" by auto
    from update_P_body_step[OF _ m, of st h sus W gv ?k] i
    show "\<exists>st'. ?body key st = Inr st' \<and> ?I st'" by auto
  qed
  then obtain d' where d': "for_each ?keys ?body d = Inr d'" by blast
  have rel: "?I d' \<and> (\<forall>key\<in>set ?keys. ?Q key (?res key d) (?res key d'))
      \<and> (\<forall>key. key \<notin> set ?keys \<longrightarrow> ?res key d' = ?res key d)"
  proof (rule for_each_rel[where body="?body" and I="?I" and Q="?Q" and res="?res", OF distinct_keys _ _ d'])
    show "?I d" using wf by simp
    fix key st st'
    assume k: "key \<in> set ?keys" and i: "?I st" and b: "?body key st = Inr st'"
    then have m: "fst key \<in> set FOR_COMPONENTS" "snd key \<in> set DOCMP2" by auto
    from update_P_body_step[OF _ m, of st h sus W gv ?k] i b
    have s: "wf_data st' \<and> ntot st' = ntot st
       \<and> (P st' (fst key) (snd key), P_prev st' (fst key) (snd key)) =
           update_P_entry h sus W gv ?k (fst key) (snd key) (P st (fst key) (snd key), P_prev st (fst key) (snd key))
       \<and> (\<forall>c' cmp'. (c', cmp') \<noteq> (fst key, snd key) \<longrightarrow>
              P st' c' cmp' = P st c' cmp' \<and> P_prev st' c' cmp' = P_prev st c' cmp')"
      by auto
    show "?I st' \<and> ?Q key (?res key st) (?res key st') \<and> (\<forall>j. j \<noteq> key \<longrightarrow> ?res j st' = ?res j st)"
    proof (intro conjI allI impI)
      show "wf_data st'" using s by simp
      show "ntot st' = ntot d" using s i by simp
      show "?res key st' = update_P_entry h sus W gv ?k (fst key) (snd key) (?res key st)"
        using s by simp
      fix j :: "component \<times> nat" assume "j \<noteq> key"
      then have "(fst j, snd j) \<noteq> (fst key, snd key)" by (auto simp add: prod_eq_iff)
      then show "?res j st' = ?res j st" using s by blast
    qed
  qed
  show ?thesis
  proof (rule exI[of _ d'], intro conjI allI)
    show "update_P h sus W W_prev dt gv (Some d) = Inr d'" using unf d' by simp
    show "wf_data d'" using rel by simp
    show "ntot d' = ntot d" using rel by simp
    fix c cmp
    show "(P d' c cmp, P_prev d' c cmp) =
          (if c \<in> set FOR_COMPONENTS \<and> cmp \<in> set DOCMP2
           then update_P_entry h sus W gv ?k c cmp (P d c cmp, P_prev d c cmp)
           else (P d c cmp, P_prev d c cmp))"
    proof (cases "(c, cmp) \<in> set ?keys")
      case True
      then have "?Q (c, cmp) (?res (c, cmp) d) (?res (c, cmp) d')" using rel by blast
      then show ?thesis using True by simp
    next
      case False
      then have "?res (c, cmp) d' = ?res (c, cmp) d" using rel by blast
      then show ?thesis using False by auto
    qed
  qed
qed

lemma update_P_point:
  assumes wf: "wf_data d" and c: "c \<in> set FOR_COMPONENTS" and cmp: "cmp \<in> set DOCMP2"
    and p: "P d c cmp = Some p" and pp: "P_prev d c cmp = Some pp"
    and w: "W c cmp = Some w" and s: "sigma sus c (component_direction h c) = Some s"
    and dist: "distinct (LOOP_OVER_VOL_OWNED gv c)"
  shows "\<exists>d'. update_P h sus W W_prev dt gv (Some d) = Inr d'
     \<and> P d' c cmp = Some (\<lambda>i. if i \<in> set (LOOP_OVER_VOL_OWNED gv c) \<and> point_guard h sus W gv c cmp s i
                              then recurrence (lorentzian_constants sus dt) (p i) (pp i)
                                     (point_forcing h sus W gv c cmp w s i)
                              else p i)
     \<and> P_prev d' c cmp = Some (\<lambda>i. if i \<in> set (LOOP_OVER_VOL_OWNED gv c) \<and> point_guard h sus W gv c cmp s i
                                   then p i else pp i)"
proof -
  from update_P_entries[OF wf, of h sus W W_prev dt gv]
  obtain d' where d': "update_P h sus W W_prev dt gv (Some d) = Inr d'"
    and e: "(P d' c cmp, P_prev d' c cmp) =
        update_P_entry h sus W gv (lorentzian_constants sus dt) c cmp (P d c cmp, P_prev d c cmp)"
    using c cmp by auto
  show ?thesis
    using d' e by (simp add: update_P_entry_def p pp w s point_loop_distinct[OF dist])
qed

lemma update_P_skip:
  assumes wf: "wf_data d"
    and skip: "P d c cmp = None \<or> W c cmp = None \<or> sigma sus c (component_direction h c) = None"
  shows "\<exists>d'. update_P h sus W W_prev dt gv (Some d) = Inr d'
     \<and> P d' c cmp = P d c cmp \<and> P_prev d' c cmp = P_prev d c cmp"
proof -
  from update_P_entries[OF wf, of h sus W W_prev dt gv]
  obtain d' where d': "update_P h sus W W_prev dt gv (Some d) = Inr d'"
    and e: "(P d' c cmp, P_prev d' c cmp) =
          (if c \<in> set FOR_COMPONENTS \<and> cmp \<in> set DOCMP2
           then update_P_entry h sus W gv (lorentzian_constants sus dt) c cmp (P d c cmp, P_prev d c cmp)
           else (P d c cmp, P_prev d c cmp))"
    by blast
  have "update_P_entry h sus W gv (lorentzian_constants sus dt) c cmp (P d c cmp, P_prev d c cmp)
        = (P d c cmp, P_prev d c cmp)"
    using skip by (auto simp add: update_P_entry_def split: option.splits)
  then show ?thesis using d' e by (auto split: if_splits)
qed

lemma recurrence_closed_form:
  "recurrence (lorentzian_constants sus dt) pcur pprev f =
     (1 / (1 + gamma sus * pi * dt)) *
       (pcur * (2 - (2 * pi * omega_0 sus)\<^sup>2 * dt\<^sup>2 * (if no_omega_0_denominator sus then 0 else 1))
        - (1 - gamma sus * pi * dt) * pprev
        + (2 * pi * omega_0 sus)\<^sup>2 * dt\<^sup>2 * f)"
  by (simp add: recurrence_def lorentzian_constants_def Let_def power2_eq_square algebra_simps)

lemma wf_data_init: "wf_data (init_internal_data h sus W dt gv)"
  by (simp add: wf_data_iff init_internal_data_def)

lemma scenario_wf: "wf_data scenario_data"
  unfolding scenario_data_def by (rule wf_data_init)

lemma scenario_facts:
  "P scenario_data Ex 0 = Some (\<lambda>i. 0)"
  "P_prev scenario_data Ex 0 = Some (\<lambda>i. 0)"
  "scenario_W Ex 0 = Some (\<lambda>i. 1)"
  "sigma scenario_sus Ex (component_direction meep Ex) = Some (\<lambda>i. 1)"
  "offdiag_sigma meep scenario_sus scenario_W scenario_gv Ex 0 1 = None"
  "offdiag_sigma meep scenario_sus scenario_W scenario_gv Ex 0 2 = None"
  "distinct (LOOP_OVER_VOL_OWNED scenario_gv Ex)"
  "0 \<in> set (LOOP_OVER_VOL_OWNED scenario_gv Ex)"
  "Ex \<in> set FOR_COMPONENTS" "0 \<in> set DOCMP2"
  by (simp_all add: scenario_data_def init_internal_data_def needs_P_def
      scenario_sus_def scenario_W_def scenario_gv_def meep_def FOR_COMPONENTS_def DOCMP2_def
      FOR_DIRECTIONS_def offdiag_sigma_def offdiag_W_def offdiag_dir_def)

lemma update_P_point_values:
  assumes wf: "wf_data d" and c: "c \<in> set FOR_COMPONENTS" and cmp: "cmp \<in> set DOCMP2"
    and p: "P d c cmp = Some p" and pp: "P_prev d c cmp = Some pp"
    and w: "W c cmp = Some w" and s: "sigma sus c (component_direction h c) = Some s"
    and dist: "distinct (LOOP_OVER_VOL_OWNED gv c)"
  shows "P_value (update_P h sus W W_prev dt gv (Some d)) c cmp i =
           Some (if i \<in> set (LOOP_OVER_VOL_OWNED gv c) \<and> point_guard h sus W gv c cmp s i
                 then recurrence (lorentzian_constants sus dt) (p i) (pp i)
                        (point_forcing h sus W gv c cmp w s i)
                 else p i)"
    and "P_prev_value (update_P h sus W W_prev dt gv (Some d)) c cmp i =
           Some (if i \<in> set (LOOP_OVER_VOL_OWNED gv c) \<and> point_guard h sus W gv c cmp s i
                 then p i else pp i)"
  using assms update_P_point[of d c cmp p pp W w sus h s gv W_prev dt]
  by (auto simp add: P_value_def P_prev_value_def)

lemma unit_facts:
  "wf_data unit_data"
  "P unit_data Ex 0 = Some (\<lambda>i. 1)"
  "P_prev unit_data Ex 0 = Some (\<lambda>i. 0)"
  "sigma zero_sigma_sus Ex (component_direction meep Ex) = Some (\<lambda>i. 0)"
  "offdiag_sigma meep zero_sigma_sus scenario_W scenario_gv Ex 0 1 = None"
  "offdiag_sigma meep zero_sigma_sus scenario_W scenario_gv Ex 0 2 = None"
  "omega_0 zero_sigma_sus = 1" "gamma zero_sigma_sus = 1 / 10" "\<not> no_omega_0_denominator zero_sigma_sus"
  by (simp_all add: unit_data_def wf_data_iff zero_sigma_sus_def scenario_sus_def
      scenario_W_def scenario_gv_def meep_def offdiag_sigma_def offdiag_W_def offdiag_dir_def)

lemma pi_sq_less_16: "pi * pi < 16"
proof -
  have "pi * pi < 4 * 4"
    by (rule mult_strict_mono) (use pi_less_4 pi_gt_zero in simp_all)
  then show ?thesis by simp
qed

text \<open>
  C4, as the spec states it, fails: on the isotropic path the point with \<open>sigma = 0\<close>,
  \<open>P = 1\<close> and \<open>P_prev = 0\<close> gets the new value
  \<open>(2 - (2 pi)^2 dt^2) / (1 + pi / 1000)\<close>, which is above 1: it is neither the old
  \<^verbatim>\<open>P_prev\<close> (0) nor the old \<^verbatim>\<open>P\<close> (1). The isotropic loop has no
  test of \<^verbatim>\<open>s[i]\<close>.
\<close>

theorem zero_sigma_isotropic_counterexample:
  "P_value (update_P meep zero_sigma_sus scenario_W scenario_W (1 / 100) scenario_gv (Some unit_data)) Ex 0 0
     = Some ((2 - (2 * pi)\<^sup>2 * (1 / 100)\<^sup>2) / (1 + pi / 1000))
   \<and> 1 < (2 - (2 * pi)\<^sup>2 * (1 / 100)\<^sup>2) / (1 + pi / 1000)
   \<and> P unit_data Ex 0 = Some (\<lambda>i. 1) \<and> P_prev unit_data Ex 0 = Some (\<lambda>i. 0)
   \<and> sigma zero_sigma_sus Ex X = Some (\<lambda>i. 0)"
proof (intro conjI)
  have g: "point_guard meep zero_sigma_sus scenario_W scenario_gv Ex 0 (\<lambda>i. 0) 0"
    by (simp add: point_guard_def unit_facts)
  show "P_value (update_P meep zero_sigma_sus scenario_W scenario_W (1 / 100) scenario_gv (Some unit_data)) Ex 0 0
     = Some ((2 - (2 * pi)\<^sup>2 * (1 / 100)\<^sup>2) / (1 + pi / 1000))"
    using g
    by (simp add: update_P_point_values(1)[where p="\<lambda>i. 1" and pp="\<lambda>i. 0" and w="\<lambda>i. 1" and s="\<lambda>i. 0"]
        unit_facts scenario_facts point_forcing_def offdiag_term_def recurrence_closed_form)
  have pos: "0 < 1 + pi / 1000" using pi_gt_zero by (simp add: add_pos_pos)
  have "pi / 1000 + 4 * (pi * pi) / 10000 < 1"
    using pi_less_4 pi_sq_less_16 by simp
  then have "1 + pi / 1000 < 2 - (2 * pi)\<^sup>2 * (1 / 100)\<^sup>2"
    by (simp add: power2_eq_square)
  then show "1 < (2 - (2 * pi)\<^sup>2 * (1 / 100)\<^sup>2) / (1 + pi / 1000)"
    using pos by (simp add: less_divide_eq)
qed (simp_all add: unit_facts zero_sigma_sus_def scenario_sus_def)

lemma update_P_isotropic_values:
  assumes a: "wf_data d" "c \<in> set FOR_COMPONENTS" "cmp \<in> set DOCMP2"
      "P d c cmp = Some p" "P_prev d c cmp = Some pp"
      "W c cmp = Some w" "sigma sus c (component_direction h c) = Some s"
      "distinct (LOOP_OVER_VOL_OWNED gv c)"
    and iso: "offdiag_sigma h sus W gv c cmp 1 = None" "offdiag_sigma h sus W gv c cmp 2 = None"
    and i: "i \<in> set (LOOP_OVER_VOL_OWNED gv c)"
  shows "P_value (update_P h sus W W_prev dt gv (Some d)) c cmp i =
          Some ((1 / (1 + gamma sus * pi * dt)) *
                (p i * (2 - (2 * pi * omega_0 sus)\<^sup>2 * dt\<^sup>2 * (if no_omega_0_denominator sus then 0 else 1))
                 - (1 - gamma sus * pi * dt) * pp i
                 + (2 * pi * omega_0 sus)\<^sup>2 * dt\<^sup>2 * (s i * w i)))"
    and "P_prev_value (update_P h sus W W_prev dt gv (Some d)) c cmp i = Some (p i)"
proof -
  have g: "point_guard h sus W gv c cmp s i"
    and f: "point_forcing h sus W gv c cmp w s i = s i * w i"
    using iso by (simp_all add: point_guard_def point_forcing_def offdiag_term_def)
  show "P_value (update_P h sus W W_prev dt gv (Some d)) c cmp i =
          Some ((1 / (1 + gamma sus * pi * dt)) *
                (p i * (2 - (2 * pi * omega_0 sus)\<^sup>2 * dt\<^sup>2 * (if no_omega_0_denominator sus then 0 else 1))
                 - (1 - gamma sus * pi * dt) * pp i
                 + (2 * pi * omega_0 sus)\<^sup>2 * dt\<^sup>2 * (s i * w i)))"
    using g f i
    by (simp add: update_P_point_values[where W=W and sus=sus and h=h and d=d, OF a] recurrence_closed_form)
  show "P_prev_value (update_P h sus W W_prev dt gv (Some d)) c cmp i = Some (p i)"
    using g f i
    by (simp add: update_P_point_values[where W=W and sus=sus and h=h and d=d, OF a])
qed

lemma update_P_skipped_values:
  assumes a: "wf_data d" "c \<in> set FOR_COMPONENTS" "cmp \<in> set DOCMP2"
      "P d c cmp = Some p" "P_prev d c cmp = Some pp"
      "W c cmp = Some w" "sigma sus c (component_direction h c) = Some s"
      "distinct (LOOP_OVER_VOL_OWNED gv c)"
    and aniso: "offdiag_sigma h sus W gv c cmp 1 \<noteq> None \<or> offdiag_sigma h sus W gv c cmp 2 \<noteq> None"
    and z: "s i = 0"
  shows "P_value (update_P h sus W W_prev dt gv (Some d)) c cmp i = Some (p i)"
    and "P_prev_value (update_P h sus W W_prev dt gv (Some d)) c cmp i = Some (pp i)"
proof -
  have g: "\<not> point_guard h sus W gv c cmp s i"
    using aniso z by (auto simp add: point_guard_def)
  show "P_value (update_P h sus W W_prev dt gv (Some d)) c cmp i = Some (p i)"
    using g by (simp add: update_P_point_values[where W=W and sus=sus and h=h and d=d, OF a])
  show "P_prev_value (update_P h sus W W_prev dt gv (Some d)) c cmp i = Some (pp i)"
    using g by (simp add: update_P_point_values[where W=W and sus=sus and h=h and d=d, OF a])
qed

text \<open>
  C1: on the isotropic path, one call of \<^verbatim>\<open>update_P\<close> gives every owned point of a
  component with arrays the value
  \<open>P_new = (1/g) (P_cur (2 - w0^2 dt^2 k) - g' P_prev + w0^2 dt^2 sigma W)\<close> with
  \<open>g = 1 + gamma pi dt\<close>, \<open>g' = 1 - gamma pi dt\<close>, \<open>w0 = 2 pi omega_0\<close> and
  \<open>k\<close> 0 or 1, and \<^verbatim>\<open>P_prev\<close> the old \<^verbatim>\<open>P\<close>. In the scenario
  (\<open>omega_0 = 1\<close>, \<open>gamma = 0.1\<close>, \<open>dt = 0.01\<close>, one point, sigma 1, W 1, both
  polarizations 0) the new value is \<open>(1 / (1 + 0.1 pi 0.01)) ((2 pi)^2 0.01^2)\<close>,
  exactly.
\<close>

theorem lorentzian_recurrence:
  "(wf_data d \<and> c \<in> set FOR_COMPONENTS \<and> cmp \<in> set DOCMP2
      \<and> P d c cmp = Some p \<and> P_prev d c cmp = Some pp
      \<and> W c cmp = Some w \<and> sigma sus c (component_direction h c) = Some s
      \<and> offdiag_sigma h sus W gv c cmp 1 = None \<and> offdiag_sigma h sus W gv c cmp 2 = None
      \<and> distinct (LOOP_OVER_VOL_OWNED gv c) \<and> i \<in> set (LOOP_OVER_VOL_OWNED gv c)
      \<and> 1 + gamma sus * pi * dt \<noteq> 0
    \<longrightarrow> P_value (update_P h sus W W_prev dt gv (Some d)) c cmp i =
          Some ((1 / (1 + gamma sus * pi * dt)) *
                (p i * (2 - (2 * pi * omega_0 sus)\<^sup>2 * dt\<^sup>2 * (if no_omega_0_denominator sus then 0 else 1))
                 - (1 - gamma sus * pi * dt) * pp i
                 + (2 * pi * omega_0 sus)\<^sup>2 * dt\<^sup>2 * (s i * w i)))
        \<and> P_prev_value (update_P h sus W W_prev dt gv (Some d)) c cmp i = Some (p i))
   \<and> P_value (update_P meep scenario_sus scenario_W scenario_W (1 / 100) scenario_gv (Some scenario_data)) Ex 0 0
        = Some ((1 / (1 + (1 / 10) * pi * (1 / 100))) * ((2 * pi)\<^sup>2 * (1 / 100)\<^sup>2))
   \<and> P_value (update_P meep scenario_sus scenario_W scenario_W (1 / 100) scenario_gv (Some scenario_data)) Ex 0 0
        = Some ((1 / (1 + (1 / 10) * pi * (1 / 100))) *
                (0 * (2 - (2 * pi)\<^sup>2 * (1 / 100)\<^sup>2) - (1 - (1 / 10) * pi * (1 / 100)) * 0
                 + (2 * pi)\<^sup>2 * (1 / 100)\<^sup>2 * (1 * 1)))
   \<and> P_prev_value (update_P meep scenario_sus scenario_W scenario_W (1 / 100) scenario_gv (Some scenario_data)) Ex 0 0
        = Some 0"
proof -
  have sc: "P_value (update_P meep scenario_sus scenario_W scenario_W (1 / 100) scenario_gv (Some scenario_data)) Ex 0 0
        = Some ((1 / (1 + (1 / 10) * pi * (1 / 100))) * ((2 * pi)\<^sup>2 * (1 / 100)\<^sup>2))
      \<and> P_prev_value (update_P meep scenario_sus scenario_W scenario_W (1 / 100) scenario_gv (Some scenario_data)) Ex 0 0
        = Some 0"
    using update_P_isotropic_values[of scenario_data Ex 0 "\<lambda>i. 0" "\<lambda>i. 0" scenario_W "\<lambda>i. 1" scenario_sus meep "\<lambda>i. 1"
        scenario_gv 0 scenario_W "1 / 100"] scenario_wf scenario_facts
    by (simp add: scenario_sus_def)
  show ?thesis
    using sc
    by (simp add: update_P_isotropic_values[where W=W and sus=sus and h=h and d=d])
qed

text \<open>The recurrence of C1 at the scenario, with the numbers worked out.\<close>

theorem lorentzian_recurrence_witness:
  "P_value (update_P meep scenario_sus scenario_W scenario_W (1 / 100) scenario_gv (Some scenario_data)) Ex 0 0
     = Some (4 * pi\<^sup>2 / 10000 / (1 + pi / 1000))"
  using lorentzian_recurrence [where d = scenario_data and c = Ex and cmp = 0 and p = "\<lambda>i. 0"
      and pp = "\<lambda>i. 0" and W = scenario_W and w = "\<lambda>i. 1" and sus = scenario_sus and h = meep
      and s = "\<lambda>i. 1" and gv = scenario_gv and i = 0 and dt = "1 / 100" and W_prev = scenario_W]
    scenario_wf scenario_facts
  by (simp add: scenario_sus_def power2_eq_square)

subsection \<open>Points with a zero sigma\<close>

lemma aniso_facts:
  "sigma aniso_zero_sus Ex (component_direction meep Ex) = Some (\<lambda>i. 0)"
  "offdiag_sigma meep aniso_zero_sus coupled_W plane_gv Ex 0 1 = Some (\<lambda>i. 1)"
  "coupled_W Ex 0 = Some (\<lambda>i. 1)"
  "distinct (LOOP_OVER_VOL_OWNED plane_gv Ex)"
  "0 \<in> set (LOOP_OVER_VOL_OWNED plane_gv Ex)"
  by (simp_all add: aniso_zero_sus_def scenario_sus_def coupled_W_def plane_gv_def meep_def
      offdiag_sigma_def offdiag_W_def offdiag_dir_def)

text \<open>
  C4, amended: a point whose sigma is exactly zero is skipped by a guard on the two
  anisotropic paths only, where \<^verbatim>\<open>P\<close> and \<^verbatim>\<open>P_prev\<close> keep their values at
  the point (there is no swap). On the isotropic path there is no guard: \<^verbatim>\<open>P_prev\<close>
  takes the old \<^verbatim>\<open>P\<close>, and \<^verbatim>\<open>P\<close> takes the recurrence with no forcing,
  \<open>(1/g) (P_cur (2 - w0^2 dt^2 k) - g' P_prev)\<close>.
\<close>

theorem zero_sigma_points:
  "wf_data d \<and> c \<in> set FOR_COMPONENTS \<and> cmp \<in> set DOCMP2
      \<and> P d c cmp = Some p \<and> P_prev d c cmp = Some pp
      \<and> W c cmp = Some w \<and> sigma sus c (component_direction h c) = Some s
      \<and> distinct (LOOP_OVER_VOL_OWNED gv c) \<and> i \<in> set (LOOP_OVER_VOL_OWNED gv c)
      \<and> s i = 0 \<and> 1 + gamma sus * pi * dt \<noteq> 0
    \<longrightarrow> (offdiag_sigma h sus W gv c cmp 1 = None \<and> offdiag_sigma h sus W gv c cmp 2 = None
          \<longrightarrow> P_value (update_P h sus W W_prev dt gv (Some d)) c cmp i =
                Some ((1 / (1 + gamma sus * pi * dt)) *
                  (p i * (2 - (2 * pi * omega_0 sus)\<^sup>2 * dt\<^sup>2 * (if no_omega_0_denominator sus then 0 else 1))
                   - (1 - gamma sus * pi * dt) * pp i))
              \<and> P_prev_value (update_P h sus W W_prev dt gv (Some d)) c cmp i = Some (p i))
      \<and> (offdiag_sigma h sus W gv c cmp 1 \<noteq> None \<or> offdiag_sigma h sus W gv c cmp 2 \<noteq> None
          \<longrightarrow> P_value (update_P h sus W W_prev dt gv (Some d)) c cmp i = Some (p i)
              \<and> P_prev_value (update_P h sus W W_prev dt gv (Some d)) c cmp i = Some (pp i))"
proof (intro impI conjI; elim conjE)
  assume a: "wf_data d" "c \<in> set FOR_COMPONENTS" "cmp \<in> set DOCMP2"
      "P d c cmp = Some p" "P_prev d c cmp = Some pp"
      "W c cmp = Some w" "sigma sus c (component_direction h c) = Some s"
      "distinct (LOOP_OVER_VOL_OWNED gv c)"
    and i: "i \<in> set (LOOP_OVER_VOL_OWNED gv c)" and z: "s i = 0"
  {
    assume iso: "offdiag_sigma h sus W gv c cmp 1 = None" "offdiag_sigma h sus W gv c cmp 2 = None"
    show "P_value (update_P h sus W W_prev dt gv (Some d)) c cmp i =
                Some ((1 / (1 + gamma sus * pi * dt)) *
                  (p i * (2 - (2 * pi * omega_0 sus)\<^sup>2 * dt\<^sup>2 * (if no_omega_0_denominator sus then 0 else 1))
                   - (1 - gamma sus * pi * dt) * pp i))"
      using z by (simp add: update_P_isotropic_values(1)[where W=W and sus=sus and h=h and d=d, OF a iso i])
    show "P_prev_value (update_P h sus W W_prev dt gv (Some d)) c cmp i = Some (p i)"
      by (rule update_P_isotropic_values(2)[where W=W and sus=sus and h=h and d=d, OF a iso i])
  }
  {
    assume aniso: "offdiag_sigma h sus W gv c cmp 1 \<noteq> None \<or> offdiag_sigma h sus W gv c cmp 2 \<noteq> None"
    show "P_value (update_P h sus W W_prev dt gv (Some d)) c cmp i = Some (p i)"
      by (rule update_P_skipped_values(1)[where W=W and sus=sus and h=h and d=d, OF a aniso z])
    show "P_prev_value (update_P h sus W W_prev dt gv (Some d)) c cmp i = Some (pp i)"
      by (rule update_P_skipped_values(2)[where W=W and sus=sus and h=h and d=d, OF a aniso z])
  }
qed

text \<open>
  C4 at the two zero-sigma scenarios: with the coupling to \<^verbatim>\<open>Y\<close> the point keeps
  \<open>P = 1\<close> and \<open>P_prev = 0\<close>; without it \<^verbatim>\<open>P_prev\<close> becomes 1 and \<^verbatim>\<open>P\<close>
  the recurrence value.
\<close>

theorem zero_sigma_points_witness:
  "P_value (update_P meep aniso_zero_sus coupled_W coupled_W (1 / 100) plane_gv (Some unit_data)) Ex 0 0 = Some 1
   \<and> P_prev_value (update_P meep aniso_zero_sus coupled_W coupled_W (1 / 100) plane_gv (Some unit_data)) Ex 0 0 = Some 0
   \<and> P_value (update_P meep zero_sigma_sus scenario_W scenario_W (1 / 100) scenario_gv (Some unit_data)) Ex 0 0
       = Some (1 / (1 + pi / 1000) * (2 - 4 * pi\<^sup>2 / 10000))
   \<and> P_prev_value (update_P meep zero_sigma_sus scenario_W scenario_W (1 / 100) scenario_gv (Some unit_data)) Ex 0 0
       = Some 1"
  using zero_sigma_points [where d = unit_data and c = Ex and cmp = 0 and p = "\<lambda>i. 1"
      and pp = "\<lambda>i. 0" and W = coupled_W and w = "\<lambda>i. 1" and sus = aniso_zero_sus and h = meep
      and s = "\<lambda>i. 0" and gv = plane_gv and i = 0 and dt = "1 / 100" and W_prev = coupled_W]
    zero_sigma_points [where d = unit_data and c = Ex and cmp = 0 and p = "\<lambda>i. 1"
      and pp = "\<lambda>i. 0" and W = scenario_W and w = "\<lambda>i. 1" and sus = zero_sigma_sus and h = meep
      and s = "\<lambda>i. 0" and gv = scenario_gv and i = 0 and dt = "1 / 100" and W_prev = scenario_W]
    unit_facts scenario_facts aniso_facts pi_gt_zero
  by (simp add: aniso_zero_sus_def scenario_sus_def power2_eq_square add_pos_pos)

subsection \<open>Components that are allocated and never advanced\<close>

text \<open>
  C10: when \<^verbatim>\<open>W[c][cmp]\<close> is null or the diagonal sigma array
  \<^verbatim>\<open>sigma[c][component_direction(c)]\<close> is null, \<^verbatim>\<open>update_P\<close> returns with the
  arrays \<^verbatim>\<open>P\<close> and \<^verbatim>\<open>P_prev\<close> of (c, cmp) as they were, also when the
  component has arrays because \<^verbatim>\<open>needs_P\<close> held through an off-diagonal sigma.
\<close>

theorem update_P_unadvanced:
  "wf_data d \<and> (W c cmp = None \<or> sigma sus c (component_direction h c) = None)
   \<longrightarrow> map_sum id (\<lambda>d'. (P d' c cmp, P_prev d' c cmp)) (update_P h sus W W_prev dt gv (Some d))
         = Inr (P d c cmp, P_prev d c cmp)"
proof
  assume a: "wf_data d \<and> (W c cmp = None \<or> sigma sus c (component_direction h c) = None)"
  then have "P d c cmp = None \<or> W c cmp = None \<or> sigma sus c (component_direction h c) = None"
    by (elim conjE disjE) simp_all
  with a update_P_skip[of d c cmp W sus h W_prev dt gv]
  show "map_sum id (\<lambda>d'. (P d' c cmp, P_prev d' c cmp)) (update_P h sus W W_prev dt gv (Some d))
         = Inr (P d c cmp, P_prev d c cmp)"
    by auto
qed

lemma coupled_facts:
  "wf_data coupled_data"
  "needs_P meep coupled_sus Ex 0 coupled_W"
  "sigma coupled_sus Ex (component_direction meep Ex) = None"
  "P coupled_data Ex 0 = Some (\<lambda>i. 0)"
  "P_prev coupled_data Ex 0 = Some (\<lambda>i. 0)"
proof -
  show "wf_data coupled_data" unfolding coupled_data_def by (rule wf_data_init)
  show n: "needs_P meep coupled_sus Ex 0 coupled_W"
    by (simp add: needs_P_def meep_def coupled_sus_def coupled_W_def FOR_DIRECTIONS_def)
  show "sigma coupled_sus Ex (component_direction meep Ex) = None"
    by (simp add: meep_def coupled_sus_def)
  show "P coupled_data Ex 0 = Some (\<lambda>i. 0)" "P_prev coupled_data Ex 0 = Some (\<lambda>i. 0)"
    using n by (simp_all add: coupled_data_def init_internal_data_def FOR_COMPONENTS_def DOCMP2_def)
qed

text \<open>
  C10 at the coupled term: \<^verbatim>\<open>needs_P\<close> holds for \<^verbatim>\<open>Ex\<close> through the sigma of
  the direction \<^verbatim>\<open>Y\<close>, the arrays are allocated, the diagonal sigma is null, and the
  update leaves the arrays as they were.
\<close>

theorem update_P_unadvanced_witness:
  "needs_P meep coupled_sus Ex 0 coupled_W
   \<and> sigma coupled_sus Ex (component_direction meep Ex) = None
   \<and> P coupled_data Ex 0 = Some (\<lambda>i. 0)
   \<and> map_sum id (\<lambda>d'. (P d' Ex 0, P_prev d' Ex 0))
        (update_P meep coupled_sus coupled_W coupled_W (1 / 100) plane_gv (Some coupled_data))
       = Inr (Some (\<lambda>i. 0), Some (\<lambda>i. 0))"
  using update_P_unadvanced [where d = coupled_data and c = Ex and cmp = 0 and W = coupled_W
      and sus = coupled_sus and h = meep and W_prev = coupled_W and dt = "1 / 100" and gv = plane_gv]
    coupled_facts
  by simp

subsection \<open>Null state and absent components\<close>

text \<open>
  C6, as the spec states it, fails for a null state: \<^verbatim>\<open>subtract_P\<close> and
  \<^verbatim>\<open>num_cinternal_notowned_needed\<close> read through the pointer before any test, so a
  null \<^verbatim>\<open>P_internal_data\<close> is a fault there.
\<close>

theorem null_state_counterexample:
  "subtract_P meep E_stuff scenario_W None = Inl Null_deref
   \<and> num_cinternal_notowned_needed Ex None = Inl Null_deref"
  by (simp add: subtract_P_def num_cinternal_notowned_needed_def)

lemma subtract_P_frame:
  assumes absent: "\<forall>ec\<in>set (FOR_FT_COMPONENTS h ft).
      field_type_component h (if ft = E_stuff then D_stuff else B_stuff) ec = dc \<longrightarrow> P d ec cmp = None"
  shows "\<exists>f'. subtract_P h ft f_minus_p (Some d) = Inr f' \<and> f' dc cmp = f_minus_p dc cmp"
proof -
  let ?ft2 = "if ft = E_stuff then D_stuff else B_stuff"
  let ?body = "\<lambda>key f.
       case P d (fst key) (snd key) of
         None \<Rightarrow> Inr f
       | Some p \<Rightarrow>
           (case f (field_type_component h ?ft2 (fst key)) (snd key) of
              None \<Rightarrow> Inr f
            | Some fmp \<Rightarrow>
                Inr (set_ptr f (field_type_component h ?ft2 (fst key)) (snd key)
                  (Some (fold (\<lambda>i a. a(int i := a (int i) - p (int i))) [0..<ntot d] fmp))))"
  have unf: "subtract_P h ft f_minus_p (Some d) =
      for_each (List.product (FOR_FT_COMPONENTS h ft) DOCMP2) ?body f_minus_p"
    by (simp add: subtract_P_def Let_def for_each_nested cong: option.case_cong)
  have "\<exists>f'. for_each (List.product (FOR_FT_COMPONENTS h ft) DOCMP2) ?body f_minus_p = Inr f'
      \<and> f' dc cmp = f_minus_p dc cmp"
  proof (rule for_each_success[where I="\<lambda>f. f dc cmp = f_minus_p dc cmp"])
    show "f_minus_p dc cmp = f_minus_p dc cmp" by simp
    fix key f
    assume k: "key \<in> set (List.product (FOR_FT_COMPONENTS h ft) DOCMP2)"
      and i: "f dc cmp = f_minus_p dc cmp"
    have "fst key \<in> set (FOR_FT_COMPONENTS h ft)" using k by auto
    then have ne: "P d (fst key) (snd key) \<noteq> None \<Longrightarrow>
        \<not> (field_type_component h ?ft2 (fst key) = dc \<and> snd key = cmp)"
      using absent by auto
    show "\<exists>f'. ?body key f = Inr f' \<and> f' dc cmp = f_minus_p dc cmp"
    proof (cases "P d (fst key) (snd key)")
      case None
      then show ?thesis using i by simp
    next
      case (Some p)
      then have "\<not> (field_type_component h ?ft2 (fst key) = dc \<and> snd key = cmp)"
        using ne by simp
      then show ?thesis using Some i
        by (cases "f (field_type_component h ?ft2 (fst key)) (snd key)")
          (auto simp add: set_ptr_apply)
    qed
  qed
  then show ?thesis using unf by simp
qed

text \<open>
  C6, amended: with a state that is not null, an absent polarization component is a
  no-op for all three operations: \<^verbatim>\<open>cinternal_notowned_ptr\<close> returns NULL,
  \<^verbatim>\<open>num_cinternal_notowned_needed\<close> returns 0, and \<^verbatim>\<open>subtract_P\<close> returns
  with the field array of (dc, cmp) as it was when every polarization component paired
  with \<open>dc\<close> is absent. Of the three, only \<^verbatim>\<open>cinternal_notowned_ptr\<close> accepts a
  null state, for which it returns NULL.
\<close>

theorem absent_component_noop:
  "cinternal_notowned_ptr inotowned c cmp n None = None
   \<and> (P d c cmp = None \<longrightarrow> cinternal_notowned_ptr inotowned c cmp n (Some d) = None)
   \<and> (P d c 0 = None \<longrightarrow> num_cinternal_notowned_needed c (Some d) = Inr 0)
   \<and> ((\<forall>ec\<in>set (FOR_FT_COMPONENTS h ft).
          field_type_component h (if ft = E_stuff then D_stuff else B_stuff) ec = dc \<longrightarrow> P d ec cmp = None)
        \<longrightarrow> map_sum id (\<lambda>f'. f' dc cmp) (subtract_P h ft f_minus_p (Some d)) = Inr (f_minus_p dc cmp))"
proof (intro conjI impI)
  assume "\<forall>ec\<in>set (FOR_FT_COMPONENTS h ft).
          field_type_component h (if ft = E_stuff then D_stuff else B_stuff) ec = dc \<longrightarrow> P d ec cmp = None"
  from subtract_P_frame[OF this, of f_minus_p]
  show "map_sum id (\<lambda>f'. f' dc cmp) (subtract_P h ft f_minus_p (Some d)) = Inr (f_minus_p dc cmp)"
    by auto
qed (simp_all add: cinternal_notowned_ptr_def num_cinternal_notowned_needed_def)

text \<open>
  C6 at the scenario, where only \<^verbatim>\<open>Ex\<close> has arrays: the queries on \<^verbatim>\<open>Ey\<close>
  return NULL and 0, and \<^verbatim>\<open>subtract_P\<close> leaves the array of \<^verbatim>\<open>Dy\<close> as it was.
\<close>

theorem absent_component_noop_witness:
  "cinternal_notowned_ptr 0 Ey 0 3 (Some scenario_data) = None
   \<and> cinternal_notowned_ptr 0 Ex 0 3 None = None
   \<and> num_cinternal_notowned_needed Ey (Some scenario_data) = Inr 0
   \<and> map_sum id (\<lambda>f'. f' Dy 0) (subtract_P meep E_stuff (\<lambda>c cmp. Some (\<lambda>i. 5)) (Some scenario_data))
       = Inr (Some (\<lambda>i. 5))"
  using absent_component_noop [where d = scenario_data and c = Ey and cmp = 0 and h = meep
      and ft = E_stuff and dc = Dy and inotowned = 0 and n = 3 and f_minus_p = "\<lambda>c cmp. Some (\<lambda>i. 5)"]
    absent_component_noop [where c = Ex and cmp = 0 and inotowned = 0 and n = 3]
  by (simp add: scenario_data_def init_internal_data_def needs_P_def meep_def scenario_sus_def
      scenario_W_def FOR_DIRECTIONS_def)

subsection \<open>The noisy update\<close>

lemma noise_amplitude_closed_form:
  "noise_amplitude sus dt =
     2 * pi * omega_0 sus * noise_amp sus * sqrt (2 * pi * gamma sus) * dt\<^sup>2 / (1 + pi * gamma sus * dt)"
  by (simp add: noise_amplitude_def Let_def power2_eq_square mult.commute mult.left_commute)

lemma noise_loop_Cons:
  "noise_loop gr amp s (j # rest) (p, g) =
     noise_loop gr amp s rest (p(j := p j + fst (gr 0 (amp * sqrt (s j)) g)), snd (gr 0 (amp * sqrt (s j)) g))"
  by (simp add: noise_loop_def Let_def)

lemma noise_loop_point:
  "distinct owned \<Longrightarrow>
     (\<forall>i. i \<notin> set owned \<longrightarrow> fst (noise_loop gr amp s owned (p, g)) i = p i)
     \<and> (\<forall>i\<in>set owned. \<exists>g'. fst (noise_loop gr amp s owned (p, g)) i = p i + fst (gr 0 (amp * sqrt (s i)) g'))"
proof (induction owned arbitrary: p g)
  case Nil
  then show ?case by (simp add: noise_loop_def)
next
  case (Cons j rest)
  let ?p1 = "p(j := p j + fst (gr 0 (amp * sqrt (s j)) g))"
  let ?g1 = "snd (gr 0 (amp * sqrt (s j)) g)"
  have d: "distinct rest" and jn: "j \<notin> set rest" using Cons.prems by simp_all
  note ih = Cons.IH[OF d, of ?p1 ?g1]
  have out: "\<And>i. i \<notin> set rest \<Longrightarrow> fst (noise_loop gr amp s rest (?p1, ?g1)) i = ?p1 i"
    using ih by blast
  have inn: "\<And>i. i \<in> set rest \<Longrightarrow>
      \<exists>g'. fst (noise_loop gr amp s rest (?p1, ?g1)) i = ?p1 i + fst (gr 0 (amp * sqrt (s i)) g')"
    using ih by blast
  have unf: "noise_loop gr amp s (j # rest) (p, g) = noise_loop gr amp s rest (?p1, ?g1)"
    by (rule noise_loop_Cons)
  show ?case
  proof (intro conjI allI impI ballI)
    fix i assume i: "i \<notin> set (j # rest)"
    then have "fst (noise_loop gr amp s rest (?p1, ?g1)) i = ?p1 i" using out by simp
    also have "?p1 i = p i" using i by simp
    finally show "fst (noise_loop gr amp s (j # rest) (p, g)) i = p i"
      unfolding unf .
  next
    fix i assume i: "i \<in> set (j # rest)"
    show "\<exists>g'. fst (noise_loop gr amp s (j # rest) (p, g)) i = p i + fst (gr 0 (amp * sqrt (s i)) g')"
    proof (cases "i = j")
      case True
      have "fst (noise_loop gr amp s rest (?p1, ?g1)) j = ?p1 j" using out jn by blast
      also have "?p1 j = p j + fst (gr 0 (amp * sqrt (s j)) g)" by simp
      finally show ?thesis unfolding unf using True by blast
    next
      case False
      then have "i \<in> set rest" using i by simp
      then obtain g' where "fst (noise_loop gr amp s rest (?p1, ?g1)) i = ?p1 i + fst (gr 0 (amp * sqrt (s i)) g')"
        using inn by blast
      moreover have "?p1 i = p i" using False by simp
      ultimately have "fst (noise_loop gr amp s rest (?p1, ?g1)) i = p i + fst (gr 0 (amp * sqrt (s i)) g')"
        by simp
      then show ?thesis unfolding unf by blast
    qed
  qed
qed

lemma noise_loop_quiet:
  assumes "\<And>m g. fst (gr m 0 g) = m"
  shows "fst (noise_loop gr 0 s owned (p, g)) = p"
proof (induction owned arbitrary: g)
  case Nil
  then show ?case by (simp add: noise_loop_def)
next
  case (Cons j rest)
  then show ?case by (simp add: noise_loop_Cons assms)
qed

lemma noisy_body_quiet:
  assumes "\<And>m g. fst (gr m 0 g) = m"
  shows "\<exists>g'. noisy_update_P_body h sus gr gv 0 c cmp (d, g) = Inr (d, g')"
proof (cases "P d c cmp")
  case None
  then show ?thesis by (simp add: noisy_update_P_body_def)
next
  case (Some p)
  have same: "d\<lparr>P := set_ptr (P d) c cmp (Some p)\<rparr> = d"
    using Some set_ptr_same[of "P d" c cmp] by simp
  show ?thesis
    using Some same
    by (cases "sigma sus c (component_direction h c)")
      (simp_all add: noisy_update_P_body_def Let_def noise_loop_quiet[where gr=gr, OF assms])
qed

lemma noisy_loops_quiet:
  fixes gr :: "real \<Rightarrow> real \<Rightarrow> 'g \<Rightarrow> real \<times> 'g"
  assumes "\<And>m g. fst (gr m 0 g) = m"
  shows "\<exists>g'. for_each FOR_COMPONENTS (\<lambda>c. for_each DOCMP2 (noisy_update_P_body h sus gr gv 0 c)) (d, g)
     = Inr (d, g')"
proof -
  have "\<exists>st'. for_each (List.product FOR_COMPONENTS DOCMP2)
          (\<lambda>key. noisy_update_P_body h sus gr gv 0 (fst key) (snd key)) (d, g) = Inr st' \<and> fst st' = d"
  proof (rule for_each_success[where I="\<lambda>st. fst st = d"])
    show "fst (d, g) = d" by simp
    fix key and st :: "lorentzian_data \<times> 'g"
    assume "fst st = d"
    then obtain g0 where st: "st = (d, g0)" by (cases st) simp
    from noisy_body_quiet[where gr=gr and h=h and sus=sus and gv=gv and c="fst key" and cmp="snd key" and d=d and g=g0, OF assms]
    show "\<exists>st'. noisy_update_P_body h sus gr gv 0 (fst key) (snd key) st = Inr st' \<and> fst st' = d"
      using st by auto
  qed
  then obtain st' where "for_each (List.product FOR_COMPONENTS DOCMP2)
          (\<lambda>key. noisy_update_P_body h sus gr gv 0 (fst key) (snd key)) (d, g) = Inr st'" "fst st' = d"
    by blast
  then show ?thesis
    by (cases st') (simp add: for_each_nested)
qed

lemma noisy_update_P_quiet:
  assumes gr: "\<And>m g. fst (gr m 0 g) = m" and amp: "noise_amplitude sus dt = 0"
  shows "map_sum id fst (noisy_update_P h sus gr W W_prev dt gv (dopt, g)) = update_P h sus W W_prev dt gv dopt"
proof (cases "update_P h sus W W_prev dt gv dopt")
  case (Inl e)
  then show ?thesis by (simp add: noisy_update_P_def)
next
  case (Inr d)
  from noisy_loops_quiet[where gr=gr and h=h and sus=sus and gv=gv and d=d and g=g, OF gr]
  obtain g' where "for_each FOR_COMPONENTS (\<lambda>c. for_each DOCMP2 (noisy_update_P_body h sus gr gv 0 c)) (d, g)
     = Inr (d, g')" by blast
  then show ?thesis using Inr by (simp add: noisy_update_P_def amp)
qed

lemma update_P_entry_alloc:
  "fst (update_P_entry h sus W gv k c cmp e) = None \<longleftrightarrow> fst e = None"
proof (cases "\<exists>p pp w s. fst e = Some p \<and> snd e = Some pp \<and> W c cmp = Some w
      \<and> sigma sus c (component_direction h c) = Some s")
  case True
  then obtain p pp w s where v: "fst e = Some p" "snd e = Some pp" "W c cmp = Some w"
      "sigma sus c (component_direction h c) = Some s" by blast
  obtain p' pp' where l: "point_loop k (point_guard h sus W gv c cmp s) (point_forcing h sus W gv c cmp w s)
             (LOOP_OVER_VOL_OWNED gv c) (p, Some pp) = Inr (p', Some pp')"
    using point_loop_success by blast
  show ?thesis by (simp add: update_P_entry_def v l)
next
  case False
  then have "update_P_entry h sus W gv k c cmp e = e"
    by (auto simp add: update_P_entry_def split: option.splits)
  then show ?thesis by simp
qed

lemma update_P_alloc:
  assumes wf: "wf_data d" and p: "P d c cmp \<noteq> None"
  shows "\<exists>dL pL. update_P h sus W W_prev dt gv (Some d) = Inr dL \<and> P dL c cmp = Some pL"
proof -
  from update_P_entries[OF wf, of h sus W W_prev dt gv]
  obtain dL where dL: "update_P h sus W W_prev dt gv (Some d) = Inr dL"
    and e: "(P dL c cmp, P_prev dL c cmp) =
          (if c \<in> set FOR_COMPONENTS \<and> cmp \<in> set DOCMP2
           then update_P_entry h sus W gv (lorentzian_constants sus dt) c cmp (P d c cmp, P_prev d c cmp)
           else (P d c cmp, P_prev d c cmp))"
    by blast
  have "P dL c cmp \<noteq> None"
  proof (cases "c \<in> set FOR_COMPONENTS \<and> cmp \<in> set DOCMP2")
    case True
    then have "P dL c cmp = fst (update_P_entry h sus W gv (lorentzian_constants sus dt) c cmp (P d c cmp, P_prev d c cmp))"
      using e by (metis fst_conv)
    then show ?thesis using p by (simp add: update_P_entry_alloc)
  next
    case False
    then show ?thesis using e p by auto
  qed
  then show ?thesis using dL by auto
qed

lemma noisy_body_step:
  fixes gr :: "real \<Rightarrow> real \<Rightarrow> 'g \<Rightarrow> real \<times> 'g"
  shows "\<exists>d' g'. noisy_update_P_body h sus gr gv amp c cmp (d, g) = Inr (d', g')
     \<and> P_prev d' = P_prev d
     \<and> (\<forall>c' cmp'. (c', cmp') \<noteq> (c, cmp) \<longrightarrow> P d' c' cmp' = P d c' cmp')
     \<and> P d' c cmp =
         (case P d c cmp of
            None \<Rightarrow> None
          | Some p \<Rightarrow>
              (case sigma sus c (component_direction h c) of
                 None \<Rightarrow> Some p
               | Some s \<Rightarrow> Some (fst (noise_loop gr amp s (LOOP_OVER_VOL_OWNED gv c) (p, g)))))"
proof (cases "P d c cmp")
  case None
  then show ?thesis by (simp add: noisy_update_P_body_def)
next
  case (Some p)
  show ?thesis
  proof (cases "sigma sus c (component_direction h c)")
    case None
    then show ?thesis using Some by (simp add: noisy_update_P_body_def)
  next
    case (Some s)
    then show ?thesis using \<open>P d c cmp = Some p\<close>
      by (auto simp add: noisy_update_P_body_def Let_def set_ptr_apply)
  qed
qed

lemma noisy_loops_point:
  fixes gr :: "real \<Rightarrow> real \<Rightarrow> 'g \<Rightarrow> real \<times> 'g"
  shows "\<exists>dN gN. for_each FOR_COMPONENTS (\<lambda>c. for_each DOCMP2 (noisy_update_P_body h sus gr gv amp c)) (dL, g)
       = Inr (dN, gN)
     \<and> P_prev dN = P_prev dL
     \<and> (\<forall>c\<in>set FOR_COMPONENTS. \<forall>cmp\<in>set DOCMP2. \<forall>p s.
           P dL c cmp = Some p \<longrightarrow> sigma sus c (component_direction h c) = Some s \<longrightarrow>
           (\<exists>g0. P dN c cmp = Some (fst (noise_loop gr amp s (LOOP_OVER_VOL_OWNED gv c) (p, g0)))))"
proof -
  let ?keys = "List.product FOR_COMPONENTS DOCMP2"
  let ?body = "\<lambda>key. noisy_update_P_body h sus gr gv amp (fst key) (snd key)"
  let ?I = "\<lambda>st :: lorentzian_data \<times> 'g. P_prev (fst st) = P_prev dL"
  let ?res = "\<lambda>key (st :: lorentzian_data \<times> 'g). P (fst st) (fst key) (snd key)"
  let ?Q = "\<lambda>key e e'. case e of None \<Rightarrow> e' = None
      | Some p \<Rightarrow> (case sigma sus (fst key) (component_direction h (fst key)) of
                     None \<Rightarrow> e' = Some p
                   | Some s \<Rightarrow> (\<exists>g0. e' = Some (fst (noise_loop gr amp s (LOOP_OVER_VOL_OWNED gv (fst key)) (p, g0)))))"
  have step: "?I st' \<and> ?Q key (?res key st) (?res key st') \<and> (\<forall>j. j \<noteq> key \<longrightarrow> ?res j st' = ?res j st)"
    if i: "?I st" and b: "?body key st = Inr st'" for key st st'
  proof -
    obtain d0 g0 where st: "st = (d0, g0)" by (cases st)
    from noisy_body_step[of h sus gr gv amp "fst key" "snd key" d0 g0] b st
    obtain d' g' where s: "st' = (d', g')" "P_prev d' = P_prev d0"
      "\<forall>c' cmp'. (c', cmp') \<noteq> (fst key, snd key) \<longrightarrow> P d' c' cmp' = P d0 c' cmp'"
      "P d' (fst key) (snd key) =
         (case P d0 (fst key) (snd key) of
            None \<Rightarrow> None
          | Some p \<Rightarrow>
              (case sigma sus (fst key) (component_direction h (fst key)) of
                 None \<Rightarrow> Some p
               | Some s \<Rightarrow> Some (fst (noise_loop gr amp s (LOOP_OVER_VOL_OWNED gv (fst key)) (p, g0)))))"
      by auto
    show ?thesis
    proof (intro conjI allI impI)
      show "?I st'" using s i st by simp
      show "?Q key (?res key st) (?res key st')"
        using s st by (auto split: option.splits)
      fix j :: "component \<times> nat" assume "j \<noteq> key"
      then have "(fst j, snd j) \<noteq> (fst key, snd key)" by (auto simp add: prod_eq_iff)
      then show "?res j st' = ?res j st" using s st by simp
    qed
  qed
  have "\<exists>st'. for_each ?keys ?body (dL, g) = Inr st' \<and> True"
  proof (rule for_each_success[where I="\<lambda>st. True"])
    fix key and st :: "lorentzian_data \<times> 'g"
    obtain d0 g0 where st: "st = (d0, g0)" by (cases st)
    from noisy_body_step[of h sus gr gv amp "fst key" "snd key" d0 g0] st
    show "\<exists>st'. ?body key st = Inr st' \<and> True" by auto
  qed simp
  then obtain st' where r: "for_each ?keys ?body (dL, g) = Inr st'" by blast
  have rel: "?I st' \<and> (\<forall>key\<in>set ?keys. ?Q key (?res key (dL, g)) (?res key st'))
      \<and> (\<forall>key. key \<notin> set ?keys \<longrightarrow> ?res key st' = ?res key (dL, g))"
    by (rule for_each_rel[where body="?body" and I="?I" and Q="?Q" and res="?res", OF distinct_keys _ _ r])
      (use step in auto)
  obtain dN gN where n: "st' = (dN, gN)" by (cases st')
  show ?thesis
  proof (rule exI[of _ dN], rule exI[of _ gN], intro conjI ballI allI impI)
    show "for_each FOR_COMPONENTS (\<lambda>c. for_each DOCMP2 (noisy_update_P_body h sus gr gv amp c)) (dL, g)
       = Inr (dN, gN)"
      using r n by (simp add: for_each_nested)
    show "P_prev dN = P_prev dL" using rel n by simp
    fix c cmp p s
    assume m: "c \<in> set FOR_COMPONENTS" "cmp \<in> set DOCMP2"
      and p: "P dL c cmp = Some p" and s: "sigma sus c (component_direction h c) = Some s"
    from m have "(c, cmp) \<in> set ?keys" by simp
    then have "?Q (c, cmp) (?res (c, cmp) (dL, g)) (?res (c, cmp) st')" using rel by blast
    then show "\<exists>g0. P dN c cmp = Some (fst (noise_loop gr amp s (LOOP_OVER_VOL_OWNED gv c) (p, g0)))"
      using p s n by simp
  qed
qed

lemma noisy_update_P_point:
  fixes gr :: "real \<Rightarrow> real \<Rightarrow> 'g \<Rightarrow> real \<times> 'g"
  assumes wf: "wf_data d" and c: "c \<in> set FOR_COMPONENTS" and cmp: "cmp \<in> set DOCMP2"
    and p: "P d c cmp \<noteq> None" and s: "sigma sus c (component_direction h c) = Some s"
    and dist: "distinct (LOOP_OVER_VOL_OWNED gv c)" and i: "i \<in> set (LOOP_OVER_VOL_OWNED gv c)"
  shows "\<exists>pL g'. P_value (update_P h sus W W_prev dt gv (Some d)) c cmp i = Some pL
      \<and> P_value (map_sum id fst (noisy_update_P h sus gr W W_prev dt gv (Some d, g))) c cmp i
          = Some (pL + fst (gr 0 (noise_amplitude sus dt * sqrt (s i)) g'))
      \<and> P_prev_value (map_sum id fst (noisy_update_P h sus gr W W_prev dt gv (Some d, g))) c cmp i
          = P_prev_value (update_P h sus W W_prev dt gv (Some d)) c cmp i"
proof -
  from update_P_alloc[OF wf p, of h sus W W_prev dt gv]
  obtain dL pL where dL: "update_P h sus W W_prev dt gv (Some d) = Inr dL" "P dL c cmp = Some pL"
    by blast
  from noisy_loops_point[of h sus gr gv "noise_amplitude sus dt" dL g]
  obtain dN gN where n: "for_each FOR_COMPONENTS
        (\<lambda>c. for_each DOCMP2 (noisy_update_P_body h sus gr gv (noise_amplitude sus dt) c)) (dL, g) = Inr (dN, gN)"
    "P_prev dN = P_prev dL"
    and q: "\<forall>c\<in>set FOR_COMPONENTS. \<forall>cmp\<in>set DOCMP2. \<forall>p s.
           P dL c cmp = Some p \<longrightarrow> sigma sus c (component_direction h c) = Some s \<longrightarrow>
           (\<exists>g0. P dN c cmp = Some (fst (noise_loop gr (noise_amplitude sus dt) s (LOOP_OVER_VOL_OWNED gv c) (p, g0))))"
    by blast
  from q c cmp dL(2) s obtain g0 where
    pn: "P dN c cmp = Some (fst (noise_loop gr (noise_amplitude sus dt) s (LOOP_OVER_VOL_OWNED gv c) (pL, g0)))"
    by blast
  from noise_loop_point[OF dist, of gr "noise_amplitude sus dt" s pL g0] i
  obtain g' where v: "fst (noise_loop gr (noise_amplitude sus dt) s (LOOP_OVER_VOL_OWNED gv c) (pL, g0)) i
      = pL i + fst (gr 0 (noise_amplitude sus dt * sqrt (s i)) g')"
    by blast
  have noisy: "noisy_update_P h sus gr W W_prev dt gv (Some d, g) = Inr (dN, gN)"
    using dL n by (simp add: noisy_update_P_def)
  show ?thesis
    apply (rule exI[of _ "pL i"])
    apply (rule exI[of _ g'])
    using dL noisy pn v n(2) by (simp add: P_value_def P_prev_value_def)
qed

lemma quiet_facts:
  "noise_amp quiet_sus = 0" "gamma quiet_sus = 1 / 10" "omega_0 quiet_sus = 1"
  "sigma quiet_sus = sigma scenario_sus"
  "noise_amp noisy_sus = 1" "gamma noisy_sus = 1 / 10" "omega_0 noisy_sus = 1"
  "sigma noisy_sus = sigma scenario_sus"
  by (simp_all add: quiet_sus_def noisy_sus_def lorentzian_susceptibility.defs scenario_sus_def)

lemma scenario_sigma_nonneg: "sigma_nonneg meep quiet_sus scenario_gv"
  by (simp add: sigma_nonneg_def quiet_facts scenario_sus_def list_all_iff split: option.splits)

text \<open>
  C8: after the deterministic Lorentzian step, the noisy update adds to every owned point
  of a component with arrays and a diagonal sigma one draw of the generator, asked for
  the mean 0 and the standard deviation \<open>amp sqrt(sigma_local)\<close>, where \<open>amp\<close> is
  \<open>2 pi omega_0 noiseAmp sqrt(2 pi gamma) dt^2 / (1 + pi gamma dt)\<close>; \<^verbatim>\<open>P_prev\<close> is
  that of the Lorentzian step. With \<open>noiseAmp = 0\<close>, and a generator that returns the mean
  when the deviation is zero, the state after the noisy update is the state after the
  Lorentzian update. The square roots are real ones: \<open>gamma\<close> and sigma are not negative.
\<close>

theorem noisy_update_P_noise:
  fixes gr :: "real \<Rightarrow> real \<Rightarrow> 'g \<Rightarrow> real \<times> 'g"
  shows "noise_amplitude sus dt =
       2 * pi * omega_0 sus * noise_amp sus * sqrt (2 * pi * gamma sus) * dt\<^sup>2 / (1 + pi * gamma sus * dt)
   \<and> (wf_data d \<and> c \<in> set FOR_COMPONENTS \<and> cmp \<in> set DOCMP2 \<and> P d c cmp \<noteq> None
        \<and> sigma sus c (component_direction h c) = Some s
        \<and> distinct (LOOP_OVER_VOL_OWNED gv c) \<and> i \<in> set (LOOP_OVER_VOL_OWNED gv c)
        \<and> 0 \<le> s i \<and> 0 \<le> gamma sus \<and> 1 + pi * gamma sus * dt \<noteq> 0
      \<longrightarrow> (\<exists>pL g'. P_value (update_P h sus W W_prev dt gv (Some d)) c cmp i = Some pL
            \<and> P_value (map_sum id fst (noisy_update_P h sus gr W W_prev dt gv (Some d, g))) c cmp i
                = Some (pL + fst (gr 0 (noise_amplitude sus dt * sqrt (s i)) g'))
            \<and> P_prev_value (map_sum id fst (noisy_update_P h sus gr W W_prev dt gv (Some d, g))) c cmp i
                = P_prev_value (update_P h sus W W_prev dt gv (Some d)) c cmp i))
   \<and> (noise_amp sus = 0 \<and> (\<forall>m g0. fst (gr m 0 g0) = m)
        \<and> 0 \<le> gamma sus \<and> 1 + pi * gamma sus * dt \<noteq> 0 \<and> sigma_nonneg h sus gv
      \<longrightarrow> map_sum id fst (noisy_update_P h sus gr W W_prev dt gv (dopt, g))
            = update_P h sus W W_prev dt gv dopt)"
proof (intro conjI impI)
  show "noise_amplitude sus dt =
       2 * pi * omega_0 sus * noise_amp sus * sqrt (2 * pi * gamma sus) * dt\<^sup>2 / (1 + pi * gamma sus * dt)"
    by (rule noise_amplitude_closed_form)
next
  assume a: "wf_data d \<and> c \<in> set FOR_COMPONENTS \<and> cmp \<in> set DOCMP2 \<and> P d c cmp \<noteq> None
        \<and> sigma sus c (component_direction h c) = Some s
        \<and> distinct (LOOP_OVER_VOL_OWNED gv c) \<and> i \<in> set (LOOP_OVER_VOL_OWNED gv c)
        \<and> 0 \<le> s i \<and> 0 \<le> gamma sus \<and> 1 + pi * gamma sus * dt \<noteq> 0"
  then show "\<exists>pL g'. P_value (update_P h sus W W_prev dt gv (Some d)) c cmp i = Some pL
            \<and> P_value (map_sum id fst (noisy_update_P h sus gr W W_prev dt gv (Some d, g))) c cmp i
                = Some (pL + fst (gr 0 (noise_amplitude sus dt * sqrt (s i)) g'))
            \<and> P_prev_value (map_sum id fst (noisy_update_P h sus gr W W_prev dt gv (Some d, g))) c cmp i
                = P_prev_value (update_P h sus W W_prev dt gv (Some d)) c cmp i"
    using noisy_update_P_point[where gr=gr and d=d and c=c and cmp=cmp and sus=sus and h=h and s=s
        and gv=gv and i=i and W=W and W_prev=W_prev and dt=dt and g=g]
    by blast
next
  assume a: "noise_amp sus = 0 \<and> (\<forall>m g0. fst (gr m 0 g0) = m)
        \<and> 0 \<le> gamma sus \<and> 1 + pi * gamma sus * dt \<noteq> 0 \<and> sigma_nonneg h sus gv"
  then have amp: "noise_amplitude sus dt = 0"
    by (simp add: noise_amplitude_def Let_def)
  from a have gr: "\<And>m g0. fst (gr m 0 g0) = m" by blast
  show "map_sum id fst (noisy_update_P h sus gr W W_prev dt gv (dopt, g))
            = update_P h sus W W_prev dt gv dopt"
    by (rule noisy_update_P_quiet[where gr=gr, OF gr amp])
qed

text \<open>
  C8 at the scenario with the counting generator: with the amplitude 0 the noisy update
  gives the state of the Lorentzian update, and with the amplitude 1 the point gets one
  draw added to the Lorentzian value.
\<close>

theorem noisy_update_P_noise_witness:
  "map_sum id fst
      (noisy_update_P meep quiet_sus counter_random scenario_W scenario_W (1 / 100) scenario_gv
         (Some scenario_data, 0))
     = update_P meep quiet_sus scenario_W scenario_W (1 / 100) scenario_gv (Some scenario_data)
   \<and> (\<exists>pL g'. P_value (update_P meep noisy_sus scenario_W scenario_W (1 / 100) scenario_gv (Some scenario_data)) Ex 0 0
          = Some pL
        \<and> P_value (map_sum id fst
             (noisy_update_P meep noisy_sus counter_random scenario_W scenario_W (1 / 100) scenario_gv
                (Some scenario_data, 0))) Ex 0 0
          = Some (pL + fst (counter_random 0 (noise_amplitude noisy_sus (1 / 100) * sqrt 1) g')))"
proof -
  have nz: "1 + pi * (1 / 10) * (1 / 100) \<noteq> 0"
    using pi_gt_zero by (simp add: add_pos_pos pos_add_strict less_imp_neq[symmetric])
  have h3: "noise_amp quiet_sus = 0 \<and> (\<forall>m g0. fst (counter_random m 0 g0) = m)
        \<and> 0 \<le> gamma quiet_sus \<and> 1 + pi * gamma quiet_sus * (1 / 100) \<noteq> 0
        \<and> sigma_nonneg meep quiet_sus scenario_gv"
    using nz scenario_sigma_nonneg by (simp add: quiet_facts counter_random_def)
  have h2: "wf_data scenario_data \<and> Ex \<in> set FOR_COMPONENTS \<and> 0 \<in> set DOCMP2
        \<and> P scenario_data Ex 0 \<noteq> None
        \<and> sigma noisy_sus Ex (component_direction meep Ex) = Some (\<lambda>i. 1)
        \<and> distinct (LOOP_OVER_VOL_OWNED scenario_gv Ex) \<and> 0 \<in> set (LOOP_OVER_VOL_OWNED scenario_gv Ex)
        \<and> 0 \<le> (1::real) \<and> 0 \<le> gamma noisy_sus \<and> 1 + pi * gamma noisy_sus * (1 / 100) \<noteq> 0"
    using nz scenario_wf scenario_facts by (simp add: quiet_facts)
  have a: "map_sum id fst
      (noisy_update_P meep quiet_sus counter_random scenario_W scenario_W (1 / 100) scenario_gv
         (Some scenario_data, 0))
     = update_P meep quiet_sus scenario_W scenario_W (1 / 100) scenario_gv (Some scenario_data)"
    using noisy_update_P_noise [where sus = quiet_sus and gr = counter_random and h = meep
        and gv = scenario_gv and dt = "1 / 100" and W = scenario_W and W_prev = scenario_W
        and dopt = "Some scenario_data" and g = 0, THEN conjunct2, THEN conjunct2] h3
    by (rule mp)
  have b: "\<exists>pL g'. P_value (update_P meep noisy_sus scenario_W scenario_W (1 / 100) scenario_gv (Some scenario_data)) Ex 0 0
          = Some pL
        \<and> P_value (map_sum id fst
             (noisy_update_P meep noisy_sus counter_random scenario_W scenario_W (1 / 100) scenario_gv
                (Some scenario_data, 0))) Ex 0 0
          = Some (pL + fst (counter_random 0 (noise_amplitude noisy_sus (1 / 100) * sqrt 1) g'))"
    using noisy_update_P_noise [where sus = noisy_sus and gr = counter_random and h = meep
        and gv = scenario_gv and dt = "1 / 100" and W = scenario_W and W_prev = scenario_W
        and d = scenario_data and c = Ex and cmp = 0 and s = "\<lambda>i. 1" and i = 0 and g = 0,
        THEN conjunct2, THEN conjunct1] h2
    by blast
  show ?thesis using a b by blast
qed

subsection \<open>The selection of the branch\<close>

lemma update_P_coupling_values:
  assumes a: "wf_data d" "c \<in> set FOR_COMPONENTS" "cmp \<in> set DOCMP2"
      "P d c cmp = Some p" "P_prev d c cmp = Some pp"
      "W c cmp = Some w" "sigma sus c (component_direction h c) = Some s"
      "distinct (LOOP_OVER_VOL_OWNED gv c)"
    and i: "i \<in> set (LOOP_OVER_VOL_OWNED gv c)"
    and nm: "n = 1 \<and> m = 2 \<or> n = 2 \<and> m = 1"
  shows "P_value (update_P h sus W W_prev dt gv (Some d)) c cmp i =
          Some (if (offdiag_sigma h sus W gv c cmp n = None \<and> offdiag_sigma h sus W gv c cmp m = None)
                    \<or> s i \<noteq> 0
                then (1 / (1 + gamma sus * pi * dt)) *
                  (p i * (2 - (2 * pi * omega_0 sus)\<^sup>2 * dt\<^sup>2 * (if no_omega_0_denominator sus then 0 else 1))
                   - (1 - gamma sus * pi * dt) * pp i
                   + (2 * pi * omega_0 sus)\<^sup>2 * dt\<^sup>2 *
                     (s i * w i
                      + offdiag_term (offdiag_sigma h sus W gv c cmp n) (offdiag_W h W gv c cmp n)
                          (offdiag_stride h gv c n) (own_stride h gv c) i
                      + offdiag_term (offdiag_sigma h sus W gv c cmp m) (offdiag_W h W gv c cmp m)
                          (offdiag_stride h gv c m) (own_stride h gv c) i))
                else p i)"
    and "P_prev_value (update_P h sus W W_prev dt gv (Some d)) c cmp i =
          Some (if (offdiag_sigma h sus W gv c cmp n = None \<and> offdiag_sigma h sus W gv c cmp m = None)
                    \<or> s i \<noteq> 0
                then p i else pp i)"
proof -
  have g: "point_guard h sus W gv c cmp s i =
      ((offdiag_sigma h sus W gv c cmp n = None \<and> offdiag_sigma h sus W gv c cmp m = None) \<or> s i \<noteq> 0)"
    using nm by (auto simp add: point_guard_def)
  have f: "point_forcing h sus W gv c cmp w s i =
      s i * w i
      + offdiag_term (offdiag_sigma h sus W gv c cmp n) (offdiag_W h W gv c cmp n)
          (offdiag_stride h gv c n) (own_stride h gv c) i
      + offdiag_term (offdiag_sigma h sus W gv c cmp m) (offdiag_W h W gv c cmp m)
          (offdiag_stride h gv c m) (own_stride h gv c) i"
    using nm by (auto simp add: point_forcing_def)
  note v = update_P_point_values[where W=W and sus=sus and h=h and d=d and W_prev=W_prev and dt=dt
      and gv=gv and i=i, OF a]
  show "P_value (update_P h sus W W_prev dt gv (Some d)) c cmp i =
          Some (if (offdiag_sigma h sus W gv c cmp n = None \<and> offdiag_sigma h sus W gv c cmp m = None)
                    \<or> s i \<noteq> 0
                then (1 / (1 + gamma sus * pi * dt)) *
                  (p i * (2 - (2 * pi * omega_0 sus)\<^sup>2 * dt\<^sup>2 * (if no_omega_0_denominator sus then 0 else 1))
                   - (1 - gamma sus * pi * dt) * pp i
                   + (2 * pi * omega_0 sus)\<^sup>2 * dt\<^sup>2 *
                     (s i * w i
                      + offdiag_term (offdiag_sigma h sus W gv c cmp n) (offdiag_W h W gv c cmp n)
                          (offdiag_stride h gv c n) (own_stride h gv c) i
                      + offdiag_term (offdiag_sigma h sus W gv c cmp m) (offdiag_W h W gv c cmp m)
                          (offdiag_stride h gv c m) (own_stride h gv c) i))
                else p i)"
    unfolding v(1) g f recurrence_closed_form using i by (simp only: simp_thms if_True)
  show "P_prev_value (update_P h sus W W_prev dt gv (Some d)) c cmp i =
          Some (if (offdiag_sigma h sus W gv c cmp n = None \<and> offdiag_sigma h sus W gv c cmp m = None)
                    \<or> s i \<noteq> 0
                then p i else pp i)"
    unfolding v(2) g using i by (simp only: simp_thms if_True)
qed

text \<open>
  C7, amended: in \<^verbatim>\<open>update_P\<close> a coupling direction counts when it has a sigma array
  and its driving field is non-null (lines 202 and 207 null \<^verbatim>\<open>s1\<close>, \<^verbatim>\<open>s2\<close>
  otherwise). With \<open>n\<close>, \<open>m\<close> the two coupling directions in either order: when
  neither counts, every owned point gets the recurrence with the forcing \<open>s[i] w[i]\<close>;
  when only \<open>n\<close> counts, the points with \<open>s[i] \<noteq> 0\<close> get the recurrence with the
  forcing \<open>s[i] w[i] + OFFDIAG(sa, wa, isn, is)\<close>, written out below, and the other points
  are left, the same function of the sigma array, the field array and the strides whether
  \<open>n\<close> is the first or the second direction; when both count, the points with
  \<open>s[i] \<noteq> 0\<close> get the recurrence with both averaged terms.
\<close>

theorem update_P_branch_selection:
  "wf_data d \<and> c \<in> set FOR_COMPONENTS \<and> cmp \<in> set DOCMP2
      \<and> P d c cmp = Some p \<and> P_prev d c cmp = Some pp
      \<and> W c cmp = Some w \<and> sigma sus c (component_direction h c) = Some s
      \<and> distinct (LOOP_OVER_VOL_OWNED gv c) \<and> i \<in> set (LOOP_OVER_VOL_OWNED gv c)
      \<and> 1 + gamma sus * pi * dt \<noteq> 0
      \<and> (n = 1 \<and> m = 2 \<or> n = 2 \<and> m = 1)
      \<and> dn = cycle_direction h (dim gv) (component_direction h c) n
      \<and> dm = cycle_direction h (dim gv) (component_direction h c) m
      \<and> is = stride gv (component_direction h c) * (if is_magnetic h c then - 1 else 1)
      \<and> isn = stride gv dn * (if is_magnetic h c then - 1 else 1)
      \<and> ism = stride gv dm * (if is_magnetic h c then - 1 else 1)
    \<longrightarrow> ((sigma sus c dn = None \<or> W (direction_component h c dn) cmp = None)
          \<and> (sigma sus c dm = None \<or> W (direction_component h c dm) cmp = None)
          \<longrightarrow> P_value (update_P h sus W W_prev dt gv (Some d)) c cmp i =
              Some ((1 / (1 + gamma sus * pi * dt)) *
                    (p i * (2 - (2 * pi * omega_0 sus)\<^sup>2 * dt\<^sup>2 * (if no_omega_0_denominator sus then 0 else 1))
                     - (1 - gamma sus * pi * dt) * pp i
                     + (2 * pi * omega_0 sus)\<^sup>2 * dt\<^sup>2 *
                       (s i * w i)))
              \<and> P_prev_value (update_P h sus W W_prev dt gv (Some d)) c cmp i = Some (p i))
      \<and> (sigma sus c dn = Some sa \<and> W (direction_component h c dn) cmp = Some wa
          \<and> (sigma sus c dm = None \<or> W (direction_component h c dm) cmp = None)
          \<longrightarrow> P_value (update_P h sus W W_prev dt gv (Some d)) c cmp i =
              Some (if s i \<noteq> 0
                    then (1 / (1 + gamma sus * pi * dt)) *
                    (p i * (2 - (2 * pi * omega_0 sus)\<^sup>2 * dt\<^sup>2 * (if no_omega_0_denominator sus then 0 else 1))
                     - (1 - gamma sus * pi * dt) * pp i
                     + (2 * pi * omega_0 sus)\<^sup>2 * dt\<^sup>2 *
                       (s i * w i
                        + 0.25 * ((wa i + wa (i - isn)) * sa i + (wa (i + is) + wa ((i + is) - isn)) * sa (i + is))))
                    else p i)
              \<and> P_prev_value (update_P h sus W W_prev dt gv (Some d)) c cmp i = Some (if s i \<noteq> 0 then p i else pp i))
      \<and> (sigma sus c dn = Some sa \<and> W (direction_component h c dn) cmp = Some wa
          \<and> sigma sus c dm = Some sb \<and> W (direction_component h c dm) cmp = Some wb
          \<longrightarrow> P_value (update_P h sus W W_prev dt gv (Some d)) c cmp i =
              Some (if s i \<noteq> 0
                    then (1 / (1 + gamma sus * pi * dt)) *
                    (p i * (2 - (2 * pi * omega_0 sus)\<^sup>2 * dt\<^sup>2 * (if no_omega_0_denominator sus then 0 else 1))
                     - (1 - gamma sus * pi * dt) * pp i
                     + (2 * pi * omega_0 sus)\<^sup>2 * dt\<^sup>2 *
                       (s i * w i
                        + 0.25 * ((wa i + wa (i - isn)) * sa i + (wa (i + is) + wa ((i + is) - isn)) * sa (i + is))
                        + 0.25 * ((wb i + wb (i - ism)) * sb i + (wb (i + is) + wb ((i + is) - ism)) * sb (i + is))))
                    else p i)
              \<and> P_prev_value (update_P h sus W W_prev dt gv (Some d)) c cmp i = Some (if s i \<noteq> 0 then p i else pp i))"
proof (intro impI conjI; elim conjE)
  assume a: "wf_data d" "c \<in> set FOR_COMPONENTS" "cmp \<in> set DOCMP2"
      "P d c cmp = Some p" "P_prev d c cmp = Some pp"
      "W c cmp = Some w" "sigma sus c (component_direction h c) = Some s"
      "distinct (LOOP_OVER_VOL_OWNED gv c)"
    and i: "i \<in> set (LOOP_OVER_VOL_OWNED gv c)"
    and nm: "n = 1 \<and> m = 2 \<or> n = 2 \<and> m = 1"
    and dn: "dn = cycle_direction h (dim gv) (component_direction h c) n"
    and dm: "dm = cycle_direction h (dim gv) (component_direction h c) m"
    and st: "is = stride gv (component_direction h c) * (if is_magnetic h c then - 1 else 1)"
      "isn = stride gv dn * (if is_magnetic h c then - 1 else 1)"
      "ism = stride gv dm * (if is_magnetic h c then - 1 else 1)"
  note v = update_P_coupling_values[where W=W and sus=sus and h=h and d=d and W_prev=W_prev
      and dt=dt and gv=gv, OF a i nm]
  have on: "offdiag_sigma h sus W gv c cmp n =
      (if W (direction_component h c dn) cmp \<noteq> None then sigma sus c dn else None)"
    and om: "offdiag_sigma h sus W gv c cmp m =
      (if W (direction_component h c dm) cmp \<noteq> None then sigma sus c dm else None)"
    and wn: "offdiag_W h W gv c cmp n = W (direction_component h c dn) cmp"
    and wm: "offdiag_W h W gv c cmp m = W (direction_component h c dm) cmp"
    and sn: "offdiag_stride h gv c n = isn" and sm: "offdiag_stride h gv c m = ism"
    and so: "own_stride h gv c = is"
    unfolding offdiag_sigma_def offdiag_W_def offdiag_dir_def offdiag_stride_def own_stride_def dn dm st
    by (rule refl)+
  {
    assume n0: "(sigma sus c dn = None \<or> W (direction_component h c dn) cmp = None)"
      and m0: "(sigma sus c dm = None \<or> W (direction_component h c dm) cmp = None)"
    have z: "offdiag_sigma h sus W gv c cmp n = None" "offdiag_sigma h sus W gv c cmp m = None"
      using n0 m0 by (auto simp add: on om)
    show "P_value (update_P h sus W W_prev dt gv (Some d)) c cmp i =
              Some ((1 / (1 + gamma sus * pi * dt)) *
                    (p i * (2 - (2 * pi * omega_0 sus)\<^sup>2 * dt\<^sup>2 * (if no_omega_0_denominator sus then 0 else 1))
                     - (1 - gamma sus * pi * dt) * pp i
                     + (2 * pi * omega_0 sus)\<^sup>2 * dt\<^sup>2 *
                       (s i * w i)))"
      unfolding v(1) z by (simp add: offdiag_term_def)
    show "P_prev_value (update_P h sus W W_prev dt gv (Some d)) c cmp i = Some (p i)"
      unfolding v(2) z by simp
  }
  {
    assume n1: "sigma sus c dn = Some sa" "W (direction_component h c dn) cmp = Some wa"
      and m0: "(sigma sus c dm = None \<or> W (direction_component h c dm) cmp = None)"
    have z: "offdiag_sigma h sus W gv c cmp n = Some sa" "offdiag_sigma h sus W gv c cmp m = None"
      using n1 m0 by (auto simp add: on om)
    show "P_value (update_P h sus W W_prev dt gv (Some d)) c cmp i =
              Some (if s i \<noteq> 0
                    then (1 / (1 + gamma sus * pi * dt)) *
                    (p i * (2 - (2 * pi * omega_0 sus)\<^sup>2 * dt\<^sup>2 * (if no_omega_0_denominator sus then 0 else 1))
                     - (1 - gamma sus * pi * dt) * pp i
                     + (2 * pi * omega_0 sus)\<^sup>2 * dt\<^sup>2 *
                       (s i * w i
                        + 0.25 * ((wa i + wa (i - isn)) * sa i + (wa (i + is) + wa ((i + is) - isn)) * sa (i + is))))
                    else p i)"
      unfolding v(1) z wn n1 sn so by (simp add: offdiag_term_def OFFDIAG_def)
    show "P_prev_value (update_P h sus W W_prev dt gv (Some d)) c cmp i = Some (if s i \<noteq> 0 then p i else pp i)"
      unfolding v(2) z by simp
  }
  {
    assume n1: "sigma sus c dn = Some sa" "W (direction_component h c dn) cmp = Some wa"
      and m1: "sigma sus c dm = Some sb" "W (direction_component h c dm) cmp = Some wb"
    have z: "offdiag_sigma h sus W gv c cmp n = Some sa" "offdiag_sigma h sus W gv c cmp m = Some sb"
      using n1 m1 by (auto simp add: on om)
    show "P_value (update_P h sus W W_prev dt gv (Some d)) c cmp i =
              Some (if s i \<noteq> 0
                    then (1 / (1 + gamma sus * pi * dt)) *
                    (p i * (2 - (2 * pi * omega_0 sus)\<^sup>2 * dt\<^sup>2 * (if no_omega_0_denominator sus then 0 else 1))
                     - (1 - gamma sus * pi * dt) * pp i
                     + (2 * pi * omega_0 sus)\<^sup>2 * dt\<^sup>2 *
                       (s i * w i
                        + 0.25 * ((wa i + wa (i - isn)) * sa i + (wa (i + is) + wa ((i + is) - isn)) * sa (i + is))
                        + 0.25 * ((wb i + wb (i - ism)) * sb i + (wb (i + is) + wb ((i + is) - ism)) * sb (i + is))))
                    else p i)"
      unfolding v(1) z wn wm n1 m1 sn sm so by (simp add: offdiag_term_def OFFDIAG_def)
    show "P_prev_value (update_P h sus W W_prev dt gv (Some d)) c cmp i = Some (if s i \<noteq> 0 then p i else pp i)"
      unfolding v(2) z by simp
  }
qed

lemma branch_facts:
  "component_direction meep Ex = X" "\<not> is_magnetic meep Ex"
  "cycle_direction meep D3 X 1 = Y" "cycle_direction meep D3 X 2 = Z"
  "direction_component meep Ex Y = Ey" "direction_component meep Ex Z = Ez"
  "dim (branch_gv ny nz) = D3"
  "stride (branch_gv ny nz) X = 2" "stride (branch_gv ny nz) Y = ny" "stride (branch_gv ny nz) Z = nz"
  "LOOP_OVER_VOL_OWNED (branch_gv ny nz) c = [0]"
  "sigma (branch_sus sx sy sz) Ex X = Some sx" "sigma (branch_sus sx sy sz) Ex Y = sy"
  "sigma (branch_sus sx sy sz) Ex Z = sz"
  "omega_0 (branch_sus sx sy sz) = 1" "gamma (branch_sus sx sy sz) = 1 / 10"
  "\<not> no_omega_0_denominator (branch_sus sx sy sz)"
  "branch_W wy wz Ex 0 = Some (\<lambda>i. 1)" "branch_W wy wz Ey 0 = wy" "branch_W wy wz Ez 0 = wz"
  "Ex \<in> set FOR_COMPONENTS" "0 \<in> set DOCMP2"
  by (simp_all add: meep_def branch_gv_def branch_sus_def branch_W_def FOR_COMPONENTS_def DOCMP2_def)

lemma damping_nonzero: "1 + 1 / 10 * pi * (1 / 100) \<noteq> (0::real)"
proof -
  have "0 < 1 + pi / 1000" using pi_gt_zero by (simp add: add_pos_pos)
  then show ?thesis by simp
qed

text \<open>
  C7, as the spec states it, fails: the term below has a non-trivial sigma on exactly one
  coupling direction of \<^verbatim>\<open>Ex\<close>, the direction \<^verbatim>\<open>Y\<close>, and the field
  \<^verbatim>\<open>Ey\<close> is null. Line 202 nulls \<^verbatim>\<open>s1\<close> and the isotropic loop runs: at
  the point, where the diagonal sigma is 0, \<^verbatim>\<open>P_prev\<close> goes from 0 to the old
  \<^verbatim>\<open>P\<close> = 1 and \<^verbatim>\<open>P\<close> to the unforced recurrence value, while the 2-term
  loop on the same arrays leaves the point as it is.
\<close>

theorem undriven_coupling_counterexample:
  "sigma undriven_sus Ex (cycle_direction meep D3 (component_direction meep Ex) 1) = Some (\<lambda>i. 2)
   \<and> \<not> trivial_sigma undriven_sus Ex (cycle_direction meep D3 (component_direction meep Ex) 1)
   \<and> sigma undriven_sus Ex (cycle_direction meep D3 (component_direction meep Ex) 2) = None
   \<and> trivial_sigma undriven_sus Ex (cycle_direction meep D3 (component_direction meep Ex) 2)
   \<and> sigma undriven_sus Ex (component_direction meep Ex) = Some (\<lambda>i. 0)
   \<and> branch_W None None Ex 0 = Some (\<lambda>i. 1)
   \<and> branch_W None None
         (direction_component meep Ex (cycle_direction meep D3 (component_direction meep Ex) 1)) 0 = None
   \<and> P unit_data Ex 0 = Some (\<lambda>i. 1) \<and> P_prev unit_data Ex 0 = Some (\<lambda>i. 0)
   \<and> P_prev_value (update_P meep undriven_sus (branch_W None None) (branch_W None None) (1 / 100) (branch_gv 1 4) (Some unit_data)) Ex 0 0 = Some 1
   \<and> P_value (update_P meep undriven_sus (branch_W None None) (branch_W None None) (1 / 100) (branch_gv 1 4) (Some unit_data)) Ex 0 0
       = Some ((2 - (2 * pi)\<^sup>2 * (1 / 100)\<^sup>2) / (1 + pi / 1000))
   \<and> anisotropic2_loop (lorentzian_constants undriven_sus (1 / 100)) [0] (\<lambda>i. 1) (\<lambda>i. 0) 2
         (Some (\<lambda>i. 2)) None 1 (\<lambda>i. 1, Some (\<lambda>i. 0))
       = Inr (\<lambda>i. 1, Some (\<lambda>i. 0))"
proof -
  have iso: "offdiag_sigma meep undriven_sus (branch_W None None) (branch_gv 1 4) Ex 0 1 = None"
      "offdiag_sigma meep undriven_sus (branch_W None None) (branch_gv 1 4) Ex 0 2 = None"
    by (simp_all add: offdiag_sigma_def offdiag_W_def offdiag_dir_def branch_facts undriven_sus_def)
  note v = update_P_isotropic_values[where d = unit_data and c = Ex and cmp = 0 and p = "\<lambda>i. 1"
      and pp = "\<lambda>i. 0" and W = "branch_W None None" and W_prev = "branch_W None None" and w = "\<lambda>i. 1"
      and sus = undriven_sus and h = meep and s = "\<lambda>i. 0" and gv = "branch_gv 1 4" and i = 0
      and dt = "1 / 100"]
  have p: "P_value (update_P meep undriven_sus (branch_W None None) (branch_W None None) (1 / 100) (branch_gv 1 4) (Some unit_data)) Ex 0 0
       = Some ((2 - (2 * pi)\<^sup>2 * (1 / 100)\<^sup>2) / (1 + pi / 1000))"
    using v(1) iso by (simp add: unit_facts branch_facts undriven_sus_def)
  have pp: "P_prev_value (update_P meep undriven_sus (branch_W None None) (branch_W None None) (1 / 100) (branch_gv 1 4) (Some unit_data)) Ex 0 0 = Some 1"
    using v(2) iso by (simp add: unit_facts branch_facts undriven_sus_def)
  have l: "anisotropic2_loop (lorentzian_constants undriven_sus (1 / 100)) [0] (\<lambda>i. 1) (\<lambda>i. 0) 2
         (Some (\<lambda>i. 2)) None 1 (\<lambda>i. 1, Some (\<lambda>i. 0))
       = Inr (\<lambda>i. 1, Some (\<lambda>i. 0))"
    by (simp add: anisotropic2_loop_def)
  show ?thesis
    using p pp l by (simp add: unit_facts branch_facts undriven_sus_def branch_sus_def)
qed

text \<open>
  C7 at one point, with the sigma array 2 and the field \<open>i + 3\<close> on a coupling direction
  of stride 1: carried by the direction \<^verbatim>\<open>Y\<close> or by the direction \<^verbatim>\<open>Z\<close>, they
  give the same new \<^verbatim>\<open>P\<close>, the recurrence with the forcing
  \<open>1 + 0.25 ((3 + 2) 2 + (5 + 4) 2) = 8\<close>. With a second coupling (sigma 1, field 1)
  the forcing is 9. With the coupling to \<^verbatim>\<open>Y\<close> that has no driving field, and the
  diagonal sigma 0, the point gets the isotropic update with no forcing.
\<close>

theorem update_P_branch_selection_witness:
  "P_value (update_P meep (branch_sus (\<lambda>i. 1) (Some (\<lambda>i. 2)) None) (branch_W (Some ramp) None) (branch_W (Some ramp) None) (1 / 100) (branch_gv 1 4) (Some unit_data)) Ex 0 0
     = Some ((2 + 28 * pi\<^sup>2 / 10000) / (1 + pi / 1000))
   \<and> P_value (update_P meep (branch_sus (\<lambda>i. 1) None (Some (\<lambda>i. 2))) (branch_W None (Some ramp)) (branch_W None (Some ramp)) (1 / 100) (branch_gv 4 1) (Some unit_data)) Ex 0 0
     = Some ((2 + 28 * pi\<^sup>2 / 10000) / (1 + pi / 1000))
   \<and> P_value (update_P meep (branch_sus (\<lambda>i. 1) (Some (\<lambda>i. 2)) (Some (\<lambda>i. 1))) (branch_W (Some ramp) (Some (\<lambda>i. 1))) (branch_W (Some ramp) (Some (\<lambda>i. 1))) (1 / 100) (branch_gv 1 4) (Some unit_data)) Ex 0 0
     = Some ((2 + 32 * pi\<^sup>2 / 10000) / (1 + pi / 1000))
   \<and> P_prev_value (update_P meep (branch_sus (\<lambda>i. 1) (Some (\<lambda>i. 2)) None) (branch_W (Some ramp) None) (branch_W (Some ramp) None) (1 / 100) (branch_gv 1 4) (Some unit_data)) Ex 0 0 = Some 1
   \<and> P_value (update_P meep undriven_sus (branch_W None None) (branch_W None None) (1 / 100) (branch_gv 1 4) (Some unit_data)) Ex 0 0
     = Some ((2 - 4 * pi\<^sup>2 / 10000) / (1 + pi / 1000))
   \<and> P_prev_value (update_P meep undriven_sus (branch_W None None) (branch_W None None) (1 / 100) (branch_gv 1 4) (Some unit_data)) Ex 0 0 = Some 1"
proof -
  have a: "P_value (update_P meep (branch_sus (\<lambda>i. 1) (Some (\<lambda>i. 2)) None) (branch_W (Some ramp) None) (branch_W (Some ramp) None) (1 / 100) (branch_gv 1 4) (Some unit_data)) Ex 0 0
     = Some ((2 + 28 * pi\<^sup>2 / 10000) / (1 + pi / 1000))
     \<and> P_prev_value (update_P meep (branch_sus (\<lambda>i. 1) (Some (\<lambda>i. 2)) None) (branch_W (Some ramp) None) (branch_W (Some ramp) None) (1 / 100) (branch_gv 1 4) (Some unit_data)) Ex 0 0 = Some 1"
    using update_P_branch_selection [where d = unit_data and c = Ex and cmp = 0 and p = "\<lambda>i. 1"
        and pp = "\<lambda>i. 0" and W = "branch_W (Some ramp) None" and W_prev = "branch_W (Some ramp) None" and w = "\<lambda>i. 1"
        and sus = "branch_sus (\<lambda>i. 1) (Some (\<lambda>i. 2)) None" and h = meep and s = "\<lambda>i. 1" and gv = "branch_gv 1 4" and i = 0 and dt = "1 / 100"
        and n = 1 and m = 2 and dn = Y and dm = Z and ?is = 2 and isn = 1 and ism = 4 and sa = "\<lambda>i. 2" and wa = ramp]
      unit_facts(1,2,3) damping_nonzero
    by (simp add: branch_facts ramp_def power2_eq_square)
  have b: "P_value (update_P meep (branch_sus (\<lambda>i. 1) None (Some (\<lambda>i. 2))) (branch_W None (Some ramp)) (branch_W None (Some ramp)) (1 / 100) (branch_gv 4 1) (Some unit_data)) Ex 0 0
     = Some ((2 + 28 * pi\<^sup>2 / 10000) / (1 + pi / 1000))"
    using update_P_branch_selection [where d = unit_data and c = Ex and cmp = 0 and p = "\<lambda>i. 1"
        and pp = "\<lambda>i. 0" and W = "branch_W None (Some ramp)" and W_prev = "branch_W None (Some ramp)" and w = "\<lambda>i. 1"
        and sus = "branch_sus (\<lambda>i. 1) None (Some (\<lambda>i. 2))" and h = meep and s = "\<lambda>i. 1" and gv = "branch_gv 4 1" and i = 0 and dt = "1 / 100"
        and n = 2 and m = 1 and dn = Z and dm = Y and ?is = 2 and isn = 1 and ism = 4 and sa = "\<lambda>i. 2" and wa = ramp]
      unit_facts(1,2,3) damping_nonzero
    by (simp add: branch_facts ramp_def power2_eq_square)
  have c: "P_value (update_P meep (branch_sus (\<lambda>i. 1) (Some (\<lambda>i. 2)) (Some (\<lambda>i. 1))) (branch_W (Some ramp) (Some (\<lambda>i. 1))) (branch_W (Some ramp) (Some (\<lambda>i. 1))) (1 / 100) (branch_gv 1 4) (Some unit_data)) Ex 0 0
     = Some ((2 + 32 * pi\<^sup>2 / 10000) / (1 + pi / 1000))"
    using update_P_branch_selection [where d = unit_data and c = Ex and cmp = 0 and p = "\<lambda>i. 1"
        and pp = "\<lambda>i. 0" and W = "branch_W (Some ramp) (Some (\<lambda>i. 1))" and W_prev = "branch_W (Some ramp) (Some (\<lambda>i. 1))" and w = "\<lambda>i. 1"
        and sus = "branch_sus (\<lambda>i. 1) (Some (\<lambda>i. 2)) (Some (\<lambda>i. 1))" and h = meep and s = "\<lambda>i. 1" and gv = "branch_gv 1 4" and i = 0 and dt = "1 / 100"
        and n = 1 and m = 2 and dn = Y and dm = Z and ?is = 2 and isn = 1 and ism = 4 and sa = "\<lambda>i. 2" and wa = ramp and sb = "\<lambda>i. 1" and wb = "\<lambda>i. 1"]
      unit_facts(1,2,3) damping_nonzero
    by (simp add: branch_facts ramp_def power2_eq_square)
  have d: "P_value (update_P meep undriven_sus (branch_W None None) (branch_W None None) (1 / 100) (branch_gv 1 4) (Some unit_data)) Ex 0 0
     = Some ((2 - 4 * pi\<^sup>2 / 10000) / (1 + pi / 1000))
     \<and> P_prev_value (update_P meep undriven_sus (branch_W None None) (branch_W None None) (1 / 100) (branch_gv 1 4) (Some unit_data)) Ex 0 0 = Some 1"
    using update_P_branch_selection [where d = unit_data and c = Ex and cmp = 0 and p = "\<lambda>i. 1"
        and pp = "\<lambda>i. 0" and W = "branch_W None None" and W_prev = "branch_W None None" and w = "\<lambda>i. 1"
        and sus = undriven_sus and h = meep and s = "\<lambda>i. 0" and gv = "branch_gv 1 4" and i = 0 and dt = "1 / 100"
        and n = 1 and m = 2 and dn = Y and dm = Z and ?is = 2 and isn = 1 and ism = 4]
      unit_facts(1,2,3) damping_nonzero
    by (simp add: undriven_sus_def branch_facts power2_eq_square)
  show ?thesis using a b c d by simp
qed

subsection \<open>The gyrotropic update with a zero tensor\<close>




























end
